theory Spec2Isabelle
  imports Complex_Main "HOL-Library.Char_ord" "HOL-Library.List_Lexorder"
    "HOL-Library.Product_Lexorder" "HOL-Library.Multiset" "HOL-Library.Code_Target_Nat"
begin

section \<open>Data model\<close>

text \<open>
  A pandas cell is a missing value (\<open>None\<close>/\<open>NaN\<close>, for which \<open>pd.isna\<close> holds), a
  number or a string. A float column is a list of \<open>real option\<close> (\<open>None\<close> is NaN); floats
  are taken as real numbers throughout, so rounding, overflow and infinities of float64
  are outside this development. A \<open>char\<close> is a code point below 256; strings are
  \<open>char list\<close>s compared in code-point order.
\<close>

datatype cell = Null | Num real | Str string

datatype error = KeyError | ValueError | TypeError

text \<open>
  A cell of a year column that is not missing: an integer of an integer column, or a
  float of a float64 column. The type of the column shows in its cells: pandas keeps the
  years of a column as integers only while none of them is missing.
\<close>

datatype year_cell = IntYear int | FloatYear real

definition year_num :: "year_cell \<Rightarrow> real" where
  "year_num c = (case c of IntYear n \<Rightarrow> real_of_int n | FloatYear x \<Rightarrow> x)"

definition in_int64 :: "int \<Rightarrow> bool" where
  "in_int64 n = (- (2 ^ 63) \<le> n \<and> n < 2 ^ 63)"

text \<open>
  The columns shared by the cleaned table and the feature table. The source's \<open>id\<close> and
  \<open>value\<close> columns are the fields \<open>rec_id\<close> and \<open>val\<close>; a missing year is \<open>None\<close>.
\<close>

record indicator_record =
  rec_id :: cell
  indicator_code :: string
  region_code :: string
  region :: string
  country_iso3 :: string
  year :: "year_cell option"
  sex :: string
  val :: "real option"
  low :: "real option"
  high :: "real option"

record clean_row = indicator_record +
  date_reported :: "int option"

text \<open>
  The feature table of \<open>engineer_features\<close>; its \<open>date\<close> column (January 1 of the year,
  parsed by \<open>pd.to_datetime\<close>) is not part of the embedding.
\<close>

record feature_row = indicator_record +
  continent :: string
  value_roll3 :: "real option"
  value_z_global :: "real option"
  value_z_year :: "real option"
  value_pct_change :: "real option"
  ci_width :: "real option"
  quality_score :: "real option"

record forecast_row = feature_row +
  predicted_value :: real
  prediction_std :: real
  prediction_confidence :: real

text \<open>
  A numeric matrix with labelled columns, stored by column: \<open>nrows\<close> is the length of
  the row index, every column holds \<open>nrows\<close> numbers.
\<close>

record frame =
  nrows :: nat
  cols :: "(string \<times> real list) list"

definition columns :: "frame \<Rightarrow> string list" where
  "columns X = map fst (cols X)"

definition to_numpy :: "frame \<Rightarrow> real list list" where
  "to_numpy X = map (\<lambda>i. map (\<lambda>c. snd c ! i) (cols X)) [0..<nrows X]"

text \<open>The entry of column \<open>c\<close> in row \<open>i\<close>, when the frame has a column labelled \<open>c\<close>.\<close>

definition entry :: "frame \<Rightarrow> string \<Rightarrow> nat \<Rightarrow> real option" where
  "entry X c i = map_option (\<lambda>v. v ! i) (map_of (cols X) c)"

definition notna :: "'a option \<Rightarrow> bool" where
  "notna x = (x \<noteq> None)"

text \<open>The mean of a list of numbers, as \<open>numpy\<close> and \<open>pandas\<close> compute it.\<close>

definition np_mean :: "real list \<Rightarrow> real" where
  "np_mean xs = sum_list xs / real (length xs)"

text \<open>\<open>ndarray.std\<close> with the default \<open>ddof=0\<close>: the population standard deviation.\<close>

definition np_std :: "real list \<Rightarrow> real" where
  "np_std xs = sqrt (np_mean (map (\<lambda>x. (x - np_mean xs)\<^sup>2) xs))"

section \<open>Cleaner (nodes\_clean.clean\_who\_data)\<close>

text \<open>
  The raw table: column labels in order and the rows, every row holding one cell per
  label. Labels may repeat and carry surrounding blanks.
\<close>

record dataframe =
  labels :: "string list"
  records :: "cell list list"

text \<open>
  Library functions the Cleaner calls and the repository does not define: Python's
  \<open>str\<close> on a cell that is not a string, \<open>pd.to_numeric\<close> on a string, and
  \<open>pd.to_datetime\<close> on a column (entry \<open>i\<close> of its result).
\<close>

record pylib =
  str_of :: "cell \<Rightarrow> string"
  to_numeric_str :: "string \<Rightarrow> real option"
  to_datetime :: "cell list \<Rightarrow> nat \<Rightarrow> int option"

text \<open>
  \<open>str.strip()\<close> removes the characters for which \<open>str.isspace\<close> holds; below 256
  these are the ones listed. The decimal digits below 256 are \<open>0\<close> to \<open>9\<close>.
\<close>

definition is_space :: "char \<Rightarrow> bool" where
  "is_space c = (c \<in> set [CHR 0x09, CHR 0x0A, CHR 0x0B, CHR 0x0C, CHR 0x0D,
                            CHR 0x1C, CHR 0x1D, CHR 0x1E, CHR 0x1F, CHR '' '',
                            CHR 0x85, CHR 0xA0])"

definition strip :: "string \<Rightarrow> string" where
  "strip s = rev (dropWhile is_space (rev (dropWhile is_space s)))"

definition is_digit :: "char \<Rightarrow> bool" where
  "is_digit c = (c \<in> set ''0123456789'')"

definition digit_val :: "char \<Rightarrow> nat" where
  "digit_val c = of_char c - 48"

definition digits_val :: "string \<Rightarrow> nat" where
  "digits_val ds = foldl (\<lambda>a c. 10 * a + digit_val c) 0 ds"

definition is_sign :: "char \<Rightarrow> bool" where
  "is_sign c = (c = CHR ''-'' \<or> c = CHR ''+'')"

definition split_sign :: "string \<Rightarrow> bool \<times> string" where
  "split_sign s =
     (case s of
        [] \<Rightarrow> (False, [])
      | c # r \<Rightarrow> if is_sign c then (c = CHR ''-'', r) else (False, s))"

text \<open>\<open>_safe_str\<close>: \<open>str(x)\<close>; a string is returned as it is.\<close>

definition safe_str :: "pylib \<Rightarrow> cell \<Rightarrow> string" where
  "safe_str lib x = (case x of Str s \<Rightarrow> s | _ \<Rightarrow> str_of lib x)"

text \<open>
  \<open>_coerce_num\<close> searches the pattern
  \<^verbatim>\<open>[-+]?\d*\.?\d+(?:[eE][-+]?\d+)?\<close>
  in the text and converts the first match with \<open>float\<close>. \<open>match_number s\<close> is the value
  of the match that starts at the head of \<open>s\<close>, if there is one: an optional sign, the
  longest run of digits, a fraction when a dot and at least one digit follow, and an
  exponent when \<open>e\<close> or \<open>E\<close>, an optional sign and at least one digit follow.
  \<open>re_search_number\<close> tries the start positions from left to right.
\<close>

definition match_exponent :: "string \<Rightarrow> int" where
  "match_exponent s =
     (case s of
        [] \<Rightarrow> 0
      | e # r \<Rightarrow>
          if e = CHR ''e'' \<or> e = CHR ''E'' then
            (let (neg, r1) = split_sign r; es = takeWhile is_digit r1
             in if es = [] then 0 else if neg then - int (digits_val es) else int (digits_val es))
          else 0)"

definition scale10 :: "real \<Rightarrow> int \<Rightarrow> real" where
  "scale10 x e = (if 0 \<le> e then x * 10 ^ nat e else x / 10 ^ nat (- e))"

definition match_number :: "string \<Rightarrow> real option" where
  "match_number s =
     (let (neg, s1) = split_sign s;
          ds = takeWhile is_digit s1;
          s2 = dropWhile is_digit s1;
          fs = (case s2 of [] \<Rightarrow> [] | c # r \<Rightarrow> if c = CHR ''.'' then takeWhile is_digit r else []);
          s3 = (if fs = [] then s2 else dropWhile is_digit (tl s2))
      in if ds = [] \<and> fs = [] then None
         else
           (let m = real (digits_val ds) + real (digits_val fs) / 10 ^ length fs;
                v = scale10 m (match_exponent s3)
            in Some (if neg then - v else v)))"

fun re_search_number :: "string \<Rightarrow> real option" where
  "re_search_number [] = match_number []"
| "re_search_number (c # s) =
     (case match_number (c # s) of Some v \<Rightarrow> Some v | None \<Rightarrow> re_search_number s)"

definition coerce_num :: "cell \<Rightarrow> real option" where
  "coerce_num s = (case s of Null \<Rightarrow> None | Num x \<Rightarrow> Some x | Str t \<Rightarrow> re_search_number t)"


text \<open>
  \<open>_to_int\<close>: \<open>int(x)\<close>, NaN when it raises. On a string \<open>int\<close> skips blanks at both
  ends (the blanks of C's \<open>isspace\<close> and the two spaces above 127, not the separators
  \<open>0x1C\<close> to \<open>0x1F\<close> that \<open>str.strip\<close> removes) and reads an optional sign and decimal
  digits, single underscores allowed between digits; more than 4300 digits raise (the
  interpreter's default limit). On a number it truncates towards zero; a missing value
  raises.
\<close>

definition is_int_space :: "char \<Rightarrow> bool" where
  "is_int_space c = (c \<in> set [CHR 0x09, CHR 0x0A, CHR 0x0B, CHR 0x0C, CHR 0x0D, CHR '' '',
                                CHR 0x85, CHR 0xA0])"

definition int_strip :: "string \<Rightarrow> string" where
  "int_strip s = rev (dropWhile is_int_space (rev (dropWhile is_int_space s)))"

fun no_double_underscore :: "string \<Rightarrow> bool" where
  "no_double_underscore (a # b # s) =
     (\<not> (a = CHR ''_'' \<and> b = CHR ''_'') \<and> no_double_underscore (b # s))"
| "no_double_underscore s = True"

definition int_literal :: "string \<Rightarrow> nat option" where
  "int_literal b =
     (if b \<noteq> [] \<and> is_digit (hd b) \<and> is_digit (last b) \<and>
         list_all (\<lambda>c. is_digit c \<or> c = CHR ''_'') b \<and> no_double_underscore b \<and>
         length (filter is_digit b) \<le> 4300
      then Some (digits_val (filter is_digit b)) else None)"

definition py_int_str :: "string \<Rightarrow> int option" where
  "py_int_str s =
     (let (neg, b) = split_sign (int_strip s)
      in map_option (\<lambda>n. if neg then - int n else int n) (int_literal b))"

definition trunc :: "real \<Rightarrow> int" where
  "trunc x = (if 0 \<le> x then \<lfloor>x\<rfloor> else \<lceil>x\<rceil>)"

definition to_int :: "cell \<Rightarrow> int option" where
  "to_int x = (case x of Null \<Rightarrow> None | Num r \<Rightarrow> Some (trunc r) | Str s \<Rightarrow> py_int_str s)"

text \<open>\<open>pd.to_numeric(\<dots>, errors="coerce")\<close> on one cell.\<close>

definition to_numeric :: "pylib \<Rightarrow> cell \<Rightarrow> real option" where
  "to_numeric lib x = (case x of Null \<Rightarrow> None | Num r \<Rightarrow> Some r | Str s \<Rightarrow> to_numeric_str lib s)"

text \<open>Column selection by position; \<open>index_of\<close> is the first position of a label.\<close>

definition index_of :: "string \<Rightarrow> string list \<Rightarrow> nat" where
  "index_of c ls = length (takeWhile (\<lambda>l. l \<noteq> c) ls)"

definition select_positions :: "nat list \<Rightarrow> dataframe \<Rightarrow> dataframe" where
  "select_positions ps df =
     \<lparr>labels = map (\<lambda>i. labels df ! i) ps,
      records = map (\<lambda>row. map (\<lambda>i. row ! i) ps) (records df)\<rparr>"

definition important :: "string list" where
  "important =
     [''id'', ''IndicatorCode'', ''indicator_code'', ''SpatialDim'', ''SpatialDimType'',
      ''ParentLocationCode'', ''ParentLocation'', ''TimeDim'', ''TimeDimType'',
      ''Dim1'', ''Dim1Type'', ''Value'', ''NumericValue'', ''Low'', ''High'',
      ''Date'', ''TimeDimensionValue'']"

definition clean_names :: "(string \<times> string) list" where
  "clean_names =
     [(''SpatialDim'', ''country_iso3''), (''ParentLocationCode'', ''region_code''),
      (''ParentLocation'', ''region''), (''TimeDim'', ''year''), (''Dim1'', ''sex''),
      (''Value'', ''value_text''), (''NumericValue'', ''value_numeric''),
      (''Low'', ''low''), (''High'', ''high''), (''Date'', ''date_reported'')]"

definition rename :: "(string \<times> string) list \<Rightarrow> dataframe \<Rightarrow> dataframe" where
  "rename m df = df\<lparr>labels := map (\<lambda>l. case map_of m l of Some l' \<Rightarrow> l' | None \<Rightarrow> l) (labels df)\<rparr>"

text \<open>
  The first part of \<open>clean_who_data\<close>: strip the labels, settle the two indicator-code
  columns, keep the first column of every label, project to the \<open>important\<close> columns in
  that list's order, rename to the clean names.
\<close>

definition normalize_columns :: "dataframe \<Rightarrow> dataframe" where
  "normalize_columns df_raw =
     (let df1 = df_raw\<lparr>labels := map strip (labels df_raw)\<rparr>;
          df2 = (if ''IndicatorCode'' \<in> set (labels df1) \<and> ''indicator_code'' \<in> set (labels df1)
                 then select_positions
                        (filter (\<lambda>i. labels df1 ! i \<noteq> ''IndicatorCode'') [0..<length (labels df1)]) df1
                 else df1);
          df3 = (if ''IndicatorCode'' \<in> set (labels df2)
                 then rename [(''IndicatorCode'', ''indicator_code'')] df2 else df2);
          df4 = select_positions
                  (filter (\<lambda>i. labels df3 ! i \<notin> set (take i (labels df3))) [0..<length (labels df3)]) df3;
          existing = filter (\<lambda>c. c \<in> set (labels df4)) important;
          df5 = select_positions (map (\<lambda>c. index_of c (labels df4)) existing) df4
      in rename clean_names df5)"

text \<open>The cell of a row under a label, and a whole column, when the label is present.\<close>

definition cell_of :: "dataframe \<Rightarrow> cell list \<Rightarrow> string \<Rightarrow> cell option" where
  "cell_of df row c = (if c \<in> set (labels df) then Some (row ! index_of c (labels df)) else None)"

definition column :: "dataframe \<Rightarrow> string \<Rightarrow> cell list option" where
  "column df c =
     (if c \<in> set (labels df) then Some (map (\<lambda>row. row ! index_of c (labels df)) (records df))
      else None)"

text \<open>
  A string column after cleaning: \<open>_safe_str\<close> then \<open>strip\<close>; the empty string when the
  column is absent.
\<close>

definition str_column :: "pylib \<Rightarrow> dataframe \<Rightarrow> cell list \<Rightarrow> string \<Rightarrow> string" where
  "str_column lib df row c =
     (case cell_of df row c of Some x \<Rightarrow> strip (safe_str lib x) | None \<Rightarrow> [])"

text \<open>
  The test \<open>"value_numeric" in df.columns and df["value_numeric"].notna().any()\<close>: one
  decision for the whole batch.
\<close>

definition use_numeric :: "dataframe \<Rightarrow> bool" where
  "use_numeric df =
     (case column df ''value_numeric'' of None \<Rightarrow> False | Some xs \<Rightarrow> list_ex (\<lambda>x. x \<noteq> Null) xs)"

text \<open>
  \<open>df["year"].apply(_to_int)\<close>: the years that were read stay integers when every row's
  year was read, and are floats in a float64 column as soon as one is NaN. A batch
  without a year column gets a column of NaN from the final \<open>reindex\<close>.
\<close>

definition year_column :: "dataframe \<Rightarrow> year_cell option list" where
  "year_column df =
     (case column df ''year'' of
        None \<Rightarrow> replicate (length (records df)) None
      | Some xs \<Rightarrow>
          (let ys = map to_int xs
           in if list_all (\<lambda>y. y \<noteq> None) ys then map (map_option IntYear) ys
              else map (map_option (\<lambda>n. FloatYear (real_of_int n))) ys))"

text \<open>
  The row of the final schema that one raw row becomes, before any row is filtered out.
  A column the batch does not have is missing (NaN) in every row, as the final
  \<open>reindex(columns=expected_cols)\<close> makes it.
\<close>

definition coerce_record :: "pylib \<Rightarrow> dataframe \<Rightarrow> nat \<Rightarrow> cell list \<Rightarrow> clean_row" where
  "coerce_record lib df i row =
     \<lparr>rec_id = (case cell_of df row ''id'' of Some x \<Rightarrow> x | None \<Rightarrow> Null),
      indicator_code = str_column lib df row ''indicator_code'',
      region_code = str_column lib df row ''region_code'',
      region = str_column lib df row ''region'',
      country_iso3 = str_column lib df row ''country_iso3'',
      year = year_column df ! i,
      sex = str_column lib df row ''sex'',
      val = (if use_numeric df
             then (case cell_of df row ''value_numeric'' of Some x \<Rightarrow> to_numeric lib x | None \<Rightarrow> None)
             else (case cell_of df row ''value_text'' of Some x \<Rightarrow> coerce_num x | None \<Rightarrow> None)),
      low = (case cell_of df row ''low'' of Some x \<Rightarrow> to_numeric lib x | None \<Rightarrow> None),
      high = (case cell_of df row ''high'' of Some x \<Rightarrow> to_numeric lib x | None \<Rightarrow> None),
      date_reported = (case column df ''date_reported'' of
                         Some xs \<Rightarrow> to_datetime lib xs i | None \<Rightarrow> None)\<rparr>"

text \<open>
  All coerced rows. Reading \<open>df["value_text"]\<close> raises a KeyError when the numeric
  column is not used and the batch has no text value column.
\<close>

definition coerce_records :: "pylib \<Rightarrow> dataframe \<Rightarrow> error + clean_row list" where
  "coerce_records lib df_raw =
     (let df = normalize_columns df_raw
      in if \<not> use_numeric df \<and> ''value_text'' \<notin> set (labels df) then Inl KeyError
         else Inr (map (\<lambda>i. coerce_record lib df i (records df ! i)) [0..<length (records df)]))"

text \<open>\<open>DataFrame.drop_duplicates()\<close>: of rows equal in every column the first is kept.\<close>

primrec drop_duplicates_from :: "'a list \<Rightarrow> 'a list \<Rightarrow> 'a list" where
  "drop_duplicates_from seen [] = []"
| "drop_duplicates_from seen (x # xs) =
     (if x \<in> set seen then drop_duplicates_from seen xs
      else x # drop_duplicates_from (x # seen) xs)"

definition drop_duplicates :: "'a list \<Rightarrow> 'a list" where
  "drop_duplicates xs = drop_duplicates_from [] xs"

text \<open>
  \<open>clean_who_data\<close>: the coerced rows, filtered by the length of the country code, the
  indicator code and the value, then without duplicates.
\<close>

definition clean_who_data :: "pylib \<Rightarrow> dataframe \<Rightarrow> error + clean_row list" where
  "clean_who_data lib df_raw =
     (case coerce_records lib df_raw of
        Inl e \<Rightarrow> Inl e
      | Inr df \<Rightarrow>
          (let df1 = filter (\<lambda>r. length (country_iso3 r) = 3) df;
               df2 = filter (\<lambda>r. indicator_code r \<noteq> []) df1;
               df3 = filter (\<lambda>r. notna (val r)) df2
           in Inr (drop_duplicates df3)))"

text \<open>The five fields the spec names as the key of a cleaned record.\<close>

definition key5 ::
  "'a indicator_record_scheme \<Rightarrow> string \<times> string \<times> year_cell option \<times> string \<times> string" where
  "key5 r = (indicator_code r, country_iso3 r, year r, sex r, region_code r)"

section \<open>Feature Engine (nodes\_features.engineer\_features)\<close>

text \<open>The dictionary \<open>CONTINENT_MAP\<close> as an association list.\<close>

definition CONTINENT_MAP :: "(string \<times> string) list" where
  "CONTINENT_MAP =
     [(''AFR'', ''Africa''), (''AMR'', ''Americas''), (''EMR'', ''Eastern Mediterranean''),
      (''EUR'', ''Europe''), (''SEAR'', ''South-East Asia''), (''WPR'', ''Western Pacific''),
      (''AFRO'', ''Africa''), (''AMRO'', ''Americas''), (''EMRO'', ''Eastern Mediterranean''),
      (''EURO'', ''Europe''), (''SEARO'', ''South-East Asia''), (''WPRO'', ''Western Pacific'')]"

text \<open>
  \<open>sort_values(["indicator_code", "country_iso3", "year"])\<close>: a stable sort, strings in
  code-point order, missing years last.
\<close>

definition sort_tuple :: "'a indicator_record_scheme \<Rightarrow> string \<times> string \<times> bool \<times> real" where
  "sort_tuple r =
     (indicator_code r, country_iso3 r,
      (case year r of None \<Rightarrow> (True, 0) | Some c \<Rightarrow> (False, year_num c)))"

definition sort_values :: "'a indicator_record_scheme list \<Rightarrow> 'a indicator_record_scheme list" where
  "sort_values df = sort_key sort_tuple df"

text \<open>Mean and population standard deviation of a series, skipping missing values.\<close>

definition dropna :: "'a option list \<Rightarrow> 'a list" where
  "dropna s = map the (filter (\<lambda>x. x \<noteq> None) s)"

definition nanmean :: "real option list \<Rightarrow> real option" where
  "nanmean s = (if dropna s = [] then None else Some (np_mean (dropna s)))"

definition nanstd :: "real option list \<Rightarrow> real option" where
  "nanstd s = (if dropna s = [] then None else Some (np_std (dropna s)))"

text \<open>
  Group-wise operations are read off the sorted table by position: the rows of row
  \<open>k\<close>'s group that come before it, and the whole group, in table order.
\<close>

definition group_before :: "('r \<Rightarrow> 'k) \<Rightarrow> 'r list \<Rightarrow> nat \<Rightarrow> 'r list" where
  "group_before key df k = filter (\<lambda>r. key r = key (df ! k)) (take k df)"

definition group_of :: "('r \<Rightarrow> 'k) \<Rightarrow> 'r list \<Rightarrow> nat \<Rightarrow> 'r list" where
  "group_of key df k = filter (\<lambda>r. key r = key (df ! k)) df"

definition grp :: "'a indicator_record_scheme \<Rightarrow> string \<times> string" where
  "grp r = (indicator_code r, country_iso3 r)"

text \<open>\<open>rolling(window=3, min_periods=1).mean()\<close> within the group of \<open>grp\<close>.\<close>

definition rolling3_mean :: "clean_row list \<Rightarrow> nat \<Rightarrow> real option" where
  "rolling3_mean df k =
     (let s = map val (group_before grp df k @ [df ! k])
      in nanmean (drop (length s - 3) s))"

text \<open>\<open>(s - s.mean()) / (s.std(ddof=0) + 1e-9)\<close> at one entry of the group's series.\<close>

definition zscore :: "real option list \<Rightarrow> real option \<Rightarrow> real option" where
  "zscore s x =
     (case (x, nanmean s, nanstd s) of
        (Some v, Some m, Some sd) \<Rightarrow> Some ((v - m) / (sd + 1 / 10 ^ 9))
      | _ \<Rightarrow> None)"

text \<open>
  \<open>groupby(grp)["value"].shift(1)\<close>: the value of the row before in the same group, and
  the percent change against it with a previous value of 0 replaced by NaN.
\<close>

definition shift1 :: "clean_row list \<Rightarrow> nat \<Rightarrow> real option" where
  "shift1 df k = (case group_before grp df k of [] \<Rightarrow> None | r # rs \<Rightarrow> val (last (r # rs)))"

definition pct_change :: "real option \<Rightarrow> real option \<Rightarrow> real option" where
  "pct_change v value_prev =
     (case (v, value_prev) of
        (Some x, Some p) \<Rightarrow> (if p = 0 then None else Some ((x - p) / p * 100))
      | _ \<Rightarrow> None)"

definition ci_width_of :: "real option \<Rightarrow> real option \<Rightarrow> real option" where
  "ci_width_of lo hi = (case (lo, hi) of (Some l, Some h) \<Rightarrow> Some (h - l) | _ \<Rightarrow> None)"

definition quality_score_of :: "real option \<Rightarrow> real option" where
  "quality_score_of w = map_option (\<lambda>x. min (1 / (\<bar>x\<bar> + 1 / 10 ^ 9)) (10 ^ 6)) w"

text \<open>
  The feature row of row \<open>k\<close> of the sorted table. A group key with a missing year is
  dropped by \<open>groupby\<close>, which leaves \<open>value_z_year\<close> missing.
\<close>

definition feature_at :: "clean_row list \<Rightarrow> nat \<Rightarrow> feature_row" where
  "feature_at df k =
     (let r = df ! k in
      \<lparr>rec_id = rec_id r, indicator_code = indicator_code r, region_code = region_code r,
       region = region r, country_iso3 = country_iso3 r, year = year r, sex = sex r,
       val = val r, low = low r, high = high r,
       continent = (case map_of CONTINENT_MAP (region_code r) of
                      Some c \<Rightarrow> c | None \<Rightarrow> region r),
       value_roll3 = rolling3_mean df k,
       value_z_global = zscore (map val (group_of indicator_code df k)) (val r),
       value_z_year =
         (if year r = None then None
          else zscore (map val (group_of (\<lambda>r. (indicator_code r, map_option year_num (year r)))
                                 df k)) (val r)),
       value_pct_change = pct_change (val r) (shift1 df k),
       ci_width = ci_width_of (low r) (high r),
       quality_score = quality_score_of (ci_width_of (low r) (high r))\<rparr>)"

text \<open>
  For the \<open>date\<close> column the years are cast with \<open>astype("Int64")\<close>, which raises a
  TypeError on a year that is not an integer of 64 bits: a float with a fraction, or a
  number outside the range.
\<close>

definition year_int64 :: "year_cell \<Rightarrow> bool" where
  "year_int64 c =
     (case c of
        IntYear n \<Rightarrow> in_int64 n
      | FloatYear x \<Rightarrow> x = real_of_int \<lfloor>x\<rfloor> \<and> in_int64 \<lfloor>x\<rfloor>)"

definition years_int64 :: "'a indicator_record_scheme list \<Rightarrow> bool" where
  "years_int64 df = list_all (\<lambda>r. case year r of None \<Rightarrow> True | Some c \<Rightarrow> year_int64 c) df"

text \<open>
  \<open>engineer_features\<close>: the cast for the date, then sort, derive the columns, select
  them (the cleaned table's \<open>date_reported\<close> is not among them) and sort again.
\<close>

definition engineer_features :: "clean_row list \<Rightarrow> error + feature_row list" where
  "engineer_features df_clean =
     (if \<not> years_int64 df_clean then Inl TypeError
      else
        (let df = sort_values df_clean
         in Inr (sort_values (map (feature_at df) [0..<length df]))))"

text \<open>The columns of the cleaned table that the claim about row preservation names.\<close>

definition carried ::
  "'a indicator_record_scheme \<Rightarrow>
     cell \<times> string \<times> string \<times> string \<times> string \<times> year_cell option \<times> string \<times>
     real option \<times> real option \<times> real option" where
  "carried r =
     (rec_id r, indicator_code r, country_iso3 r, region_code r, region r, year r, sex r,
      val r, low r, high r)"

section \<open>Splitter (nodes\_clean.split\_by\_year)\<close>

text \<open>
  \<open>Series.astype(int)\<close> on the year column: a NaN cannot be cast and raises
  (IntCastingNaNError, a ValueError); an integer is cast to itself and a float is
  truncated towards zero. The years of a feature table fit 64 bits, since
  \<open>engineer_features\<close> raises otherwise; what the cast makes of a larger number is
  outside the model.
\<close>

definition cast_int :: "year_cell \<Rightarrow> int" where
  "cast_int c = (case c of IntYear n \<Rightarrow> n | FloatYear x \<Rightarrow> trunc x)"

fun astype_int :: "year_cell option list \<Rightarrow> error + int list" where
  "astype_int [] = Inr []"
| "astype_int (None # ys) = Inl ValueError"
| "astype_int (Some c # ys) =
     (case astype_int ys of Inl e \<Rightarrow> Inl e | Inr zs \<Rightarrow> Inr (cast_int c # zs))"

definition year_le :: "'a indicator_record_scheme \<Rightarrow> int \<Rightarrow> bool" where
  "year_le r b = (case year r of None \<Rightarrow> False | Some c \<Rightarrow> year_num c \<le> real_of_int b)"

definition year_ge :: "'a indicator_record_scheme \<Rightarrow> int \<Rightarrow> bool" where
  "year_ge r b = (case year r of None \<Rightarrow> False | Some c \<Rightarrow> year_num c \<ge> real_of_int b)"

text \<open>
  \<open>split_by_year\<close> assigns \<open>df["year"] = df["year"].astype(int)\<close> on the frame it was
  given, without copying it first, so the model returns the caller's frame as it is
  after the call together with the result: the year column of that frame is then the
  integer column the cast made. When the cast raises, the assignment has not happened.
  The two outputs are copies of rows of the frame after the assignment.
\<close>

definition split_by_year ::
  "feature_row list \<Rightarrow> feature_row list \<times> (error + feature_row list \<times> feature_row list)" where
  "split_by_year df =
     (case astype_int (map year df) of
        Inl e \<Rightarrow> (df, Inl e)
      | Inr ys \<Rightarrow>
          (let df1 = map2 (\<lambda>r y. r\<lparr>year := Some (IntYear y)\<rparr>) df ys;
               train_df = filter (\<lambda>r. year_le r 2017) df1;
               test_df = filter (\<lambda>r. year_ge r 2018 \<and> year_le r 2022) df1
           in (df1, Inr (train_df, test_df))))"

section \<open>Feature matrix (nodes\_model.\_prep\_xy)\<close>

definition fillna :: "real \<Rightarrow> real option \<Rightarrow> real" where
  "fillna d x = (case x of None \<Rightarrow> d | Some v \<Rightarrow> v)"

definition FEATURES :: "(string \<times> (feature_row \<Rightarrow> real option)) list" where
  "FEATURES =
     [(''year'', \<lambda>r. map_option year_num (year r)),
      (''value_roll3'', value_roll3),
      (''value_z_global'', value_z_global),
      (''value_z_year'', value_z_year),
      (''value_pct_change'', value_pct_change),
      (''ci_width'', ci_width),
      (''quality_score'', quality_score)]"

definition CAT_COLS :: "(string \<times> (feature_row \<Rightarrow> string)) list" where
  "CAT_COLS =
     [(''indicator_code'', indicator_code),
      (''continent'', continent),
      (''country_iso3'', country_iso3),
      (''sex'', sex)]"

text \<open>
  \<open>pd.get_dummies\<close> on one string column: one indicator column per distinct value, in
  ascending order of the values, labelled \<open>prefix_value\<close>.
\<close>

definition dummy_name :: "string \<Rightarrow> string \<Rightarrow> string" where
  "dummy_name prefix v = prefix @ ''_'' @ v"

definition get_dummies_1d :: "string \<Rightarrow> string list \<Rightarrow> (string \<times> real list) list" where
  "get_dummies_1d prefix vs =
     map (\<lambda>v. (dummy_name prefix v, map (\<lambda>x. if x = v then 1 else 0) vs)) (sort (remdups vs))"

text \<open>
  \<open>_prep_xy\<close>: the target \<open>y\<close> with missing values as 0, and the matrix \<open>X\<close> of the
  numeric block followed by the one-hot block, missing entries filled with 0.0 (only
  the numeric block can hold missing entries).
\<close>

definition prep_xy :: "feature_row list \<Rightarrow> frame \<times> real list" where
  "prep_xy df =
     (let y = map (\<lambda>r. fillna 0 (val r)) df;
          X_num = map (\<lambda>(c, f). (c, map (\<lambda>r. fillna 0 (f r)) df)) FEATURES;
          X_cat = concat (map (\<lambda>(c, f). get_dummies_1d c (map f df)) CAT_COLS)
      in (\<lparr>nrows = length df, cols = X_num @ X_cat\<rparr>, y))"

section \<open>Schema alignment (DataFrame.reindex on the columns)\<close>

text \<open>
  \<open>X.reindex(columns=target, fill_value=v)\<close> on a frame whose column labels are
  distinct, as those of every \<open>_prep_xy\<close> matrix are: the result has the target's
  labels in the target's order; a label of \<open>X\<close> keeps its column, any other label gets a
  column of \<open>v\<close>.
\<close>

definition reindex :: "string list \<Rightarrow> real \<Rightarrow> frame \<Rightarrow> frame" where
  "reindex target fill_value X =
     \<lparr>nrows = nrows X,
      cols = map (\<lambda>c. (c, case map_of (cols X) c of
                            Some v \<Rightarrow> v
                          | None \<Rightarrow> replicate (nrows X) fill_value)) target\<rparr>"

section \<open>Trainer, Evaluator and Forecaster (nodes\_model)\<close>

text \<open>
  The fitted random forest is the library's: \<open>predict\<close> maps a feature vector to the
  forest's prediction, \<open>estimators\<close> (the source's \<open>estimators_\<close>) are the predictors of the single trees.
\<close>

record forest =
  predict :: "real list \<Rightarrow> real"
  estimators :: "(real list \<Rightarrow> real) list"

text \<open>The column list \<open>train_model\<close> returns as its second result.\<close>

definition feature_columns :: "feature_row list \<Rightarrow> string list" where
  "feature_columns train_df = columns (fst (prep_xy (filter (\<lambda>r. notna (val r)) train_df)))"

text \<open>
  \<open>evaluate_model\<close> up to the prediction: the aligned matrix \<open>X_test\<close> and \<open>y_pred\<close>.
  The metrics and the importance ranking computed from them are not modelled.
\<close>

definition evaluate_model_X :: "feature_row list \<Rightarrow> string list \<Rightarrow> frame" where
  "evaluate_model_X test_df model_columns =
     reindex model_columns 0 (fst (prep_xy (filter (\<lambda>r. notna (val r)) test_df)))"

definition evaluate_model_pred :: "forest \<Rightarrow> feature_row list \<Rightarrow> string list \<Rightarrow> real list" where
  "evaluate_model_pred model test_df model_columns =
     map (predict model) (to_numpy (evaluate_model_X test_df model_columns))"

definition expand_years :: "feature_row list \<Rightarrow> feature_row list" where
  "expand_years df =
     concat (map (\<lambda>y. map (\<lambda>r. r\<lparr>year := Some (IntYear y)\<rparr>) df) [2023, 2024, 2025])"

definition predict_future_X :: "feature_row list \<Rightarrow> string list \<Rightarrow> frame" where
  "predict_future_X future_df model_columns =
     reindex model_columns 0 (fst (prep_xy (expand_years future_df)))"

definition with_prediction :: "feature_row \<Rightarrow> real \<Rightarrow> real \<Rightarrow> forecast_row" where
  "with_prediction r p s =
     feature_row.extend r
       \<lparr>predicted_value = p, prediction_std = s, prediction_confidence = 1 / (1 + s)\<rparr>"

text \<open>
  \<open>predict_future\<close>. \<open>np.stack\<close> raises a ValueError on an empty list of trees. The
  standard deviation over axis 0 of the stacked per-tree predictions is, for each row,
  the standard deviation of the trees' predictions for that row.
\<close>

definition predict_future ::
  "forest \<Rightarrow> feature_row list \<Rightarrow> string list \<Rightarrow> error + forecast_row list" where
  "predict_future model future_df model_columns =
     (let df_expanded = expand_years future_df;
          X_future = to_numpy (predict_future_X future_df model_columns);
          preds = map (predict model) X_future
      in if estimators model = [] then Inl ValueError
         else
           (let pred_std = map (\<lambda>x. np_std (map (\<lambda>tree. tree x) (estimators model))) X_future
            in Inr (map (\<lambda>(r, p, s). with_prediction r p s)
                      (zip df_expanded (zip preds pred_std)))))"

section \<open>Example inputs\<close>

definition example_row :: feature_row where
  "example_row =
     \<lparr>rec_id = Num 1, indicator_code = ''WHOSIS_000001'', region_code = ''EUR'',
      region = ''Europe'', country_iso3 = ''FRA'', year = Some (IntYear 2019), sex = ''SEX_BTSX'',
      val = Some 82, low = Some 81, high = Some 83, continent = ''Europe'',
      value_roll3 = Some 82, value_z_global = Some 0, value_z_year = Some 0,
      value_pct_change = None, ci_width = Some 2, quality_score = Some (1 / 2)\<rparr>"

text \<open>A forest of two trees whose predictions disagree more the later the year.\<close>

definition example_forest :: forest where
  "example_forest =
     \<lparr>predict = (\<lambda>x. x ! 0 - 2023), estimators = [\<lambda>x. 0, \<lambda>x. 2 * (x ! 0 - 2023)]\<rparr>"

text \<open>The example row for a country the training set has not seen.\<close>

definition example_unseen :: feature_row where
  "example_unseen = example_row\<lparr>country_iso3 := ''DEU''\<rparr>"


text \<open>
  Raw batches with the labels of the WHO service. Their text columns hold strings,
  their numeric columns numbers or missing values, and there is no date column, so the
  Cleaner applies none of the three library functions to them; \<open>example_lib\<close> stands
  for the library.
\<close>

definition example_lib :: pylib where
  "example_lib =
     \<lparr>str_of = (\<lambda>x. ''nan''), to_numeric_str = (\<lambda>s. None), to_datetime = (\<lambda>xs i. None)\<rparr>"

definition who_labels :: "string list" where
  "who_labels =
     [''IndicatorCode'', ''SpatialDim'', ''ParentLocationCode'', ''ParentLocation'',
      ''TimeDim'', ''Dim1'', ''Value'', ''NumericValue'', ''Low'', ''High'', ''indicator_code'']"

definition who_record :: "string \<Rightarrow> cell \<Rightarrow> string \<Rightarrow> cell \<Rightarrow> cell list" where
  "who_record country time_dim value_text numeric_value =
     [Str ''WHOSIS_000001'', Str country, Str ''EUR'', Str ''Europe'', time_dim, Str ''SEX_MLE'',
      Str value_text, numeric_value, Num (797 / 10), Num (799 / 10), Str ''WHOSIS_000001'']"

definition clean_a :: clean_row where
  "clean_a =
     \<lparr>rec_id = Null, indicator_code = ''WHOSIS_000001'', region_code = ''EUR'',
      region = ''Europe'', country_iso3 = ''FRA'', year = Some (IntYear 2019), sex = ''SEX_MLE'',
      val = Some (798 / 10), low = Some (797 / 10), high = Some (799 / 10),
      date_reported = None\<rparr>"

definition raw_same_key :: dataframe where
  "raw_same_key =
     \<lparr>labels = who_labels,
      records = [who_record ''FRA'' (Num 2019) ''79.8 [79.7-79.9]'' (Num (798 / 10)),
                 who_record ''FRA'' (Num 2019) ''79.9 [79.7-79.9]'' (Num (799 / 10))]\<rparr>"


definition raw_mixed_value :: dataframe where
  "raw_mixed_value =
     \<lparr>labels = who_labels,
      records = [who_record ''FRA'' (Num 2019) ''79.8 [79.7-79.9]'' (Num (798 / 10)),
                 who_record ''DEU'' (Num 2019) ''78.1 [78.1-78.2]'' Null]\<rparr>"


text \<open>
  Two cleaned rows for the same indicator, country and year that differ in sex and
  value, as the Cleaner emits them for an indicator reported by sex.
\<close>

definition two_sexes :: "clean_row list" where
  "two_sexes =
     [\<lparr>rec_id = Null, indicator_code = ''WHOSIS_000001'', region_code = ''EUR'',
       region = ''Europe'', country_iso3 = ''FRA'', year = Some (IntYear 2020), sex = ''SEX_MLE'',
       val = Some 10, low = None, high = None, date_reported = None\<rparr>,
      \<lparr>rec_id = Null, indicator_code = ''WHOSIS_000001'', region_code = ''EUR'',
       region = ''Europe'', country_iso3 = ''FRA'', year = Some (IntYear 2020), sex = ''SEX_FMLE'',
       val = Some 20, low = None, high = None, date_reported = None\<rparr>]"

text \<open>
  A raw batch in which the record whose year cannot be read is an aggregate, which the
  Cleaner drops for its country code.
\<close>

definition raw_float_year :: dataframe where
  "raw_float_year =
     \<lparr>labels = who_labels,
      records = [who_record ''FRA'' (Num 2019) ''79.8 [79.7-79.9]'' (Num (798 / 10)),
                 who_record ''GLOBAL'' Null ''79.8 [79.7-79.9]'' (Num (798 / 10))]\<rparr>"

text \<open>
  A feature table in which a row has no year, and one whose year column is a float64
  column without a missing value, as the Cleaner leaves it when the rows whose year was
  not read were dropped for another reason.
\<close>

definition undated_batch :: "feature_row list" where
  "undated_batch = [example_row\<lparr>year := Some (IntYear 2015)\<rparr>, example_row\<lparr>year := None\<rparr>]"

definition float_year_batch :: "feature_row list" where
  "float_year_batch = [example_row\<lparr>year := Some (FloatYear 2015)\<rparr>]"

text \<open>
  A raw record whose year text is \<open>9223372036854775808\<close>, the cleaned row the
  Cleaner makes of it, with a year beyond 64 bits, and a cleaned row with a report date.
\<close>

definition raw_huge_year :: dataframe where
  "raw_huge_year =
     \<lparr>labels = who_labels,
      records = [who_record ''FRA'' (Str ''9223372036854775808'') ''79.8 [79.7-79.9]''
                   (Num (798 / 10))]\<rparr>"

definition clean_huge_year :: clean_row where
  "clean_huge_year = clean_a\<lparr>year := Some (IntYear (2 ^ 63))\<rparr>"

definition clean_dated :: clean_row where
  "clean_dated = clean_a\<lparr>date_reported := Some 1\<rparr>"

section \<open>Properties of the Cleaner\<close>

lemma set_drop_duplicates_from: "set (drop_duplicates_from seen xs) = set xs - set seen"
  by (induction xs arbitrary: seen) auto

lemma distinct_drop_duplicates_from: "distinct (drop_duplicates_from seen xs)"
  by (induction xs arbitrary: seen) (auto simp: set_drop_duplicates_from)

lemma set_drop_duplicates: "set (drop_duplicates xs) = set xs"
  by (simp add: drop_duplicates_def set_drop_duplicates_from)

lemma distinct_drop_duplicates: "distinct (drop_duplicates xs)"
  by (simp add: drop_duplicates_def distinct_drop_duplicates_from)

lemma coerce_records_Inr:
  assumes "use_numeric (normalize_columns df_raw) \<or>
           ''value_text'' \<in> set (labels (normalize_columns df_raw))"
  shows "coerce_records lib df_raw =
           Inr (map (\<lambda>i. coerce_record lib (normalize_columns df_raw) i
                           (records (normalize_columns df_raw) ! i))
                  [0..<length (records (normalize_columns df_raw))])"
  using assms by (auto simp: coerce_records_def Let_def)

lemma coerce_records_KeyError:
  assumes "\<not> use_numeric (normalize_columns df_raw)"
    and "''value_text'' \<notin> set (labels (normalize_columns df_raw))"
  shows "coerce_records lib df_raw = Inl KeyError"
  using assms by (simp add: coerce_records_def Let_def)

lemma clean_who_data_KeyError:
  assumes "\<not> use_numeric (normalize_columns df_raw)"
    and "''value_text'' \<notin> set (labels (normalize_columns df_raw))"
  shows "clean_who_data lib df_raw = Inl KeyError"
  by (simp add: clean_who_data_def coerce_records_KeyError [OF assms])

lemma clean_who_data_Inr:
  assumes "coerce_records lib df_raw = Inr rows"
  shows "clean_who_data lib df_raw =
           Inr (drop_duplicates
                  (filter (\<lambda>r. length (country_iso3 r) = 3 \<and> indicator_code r \<noteq> [] \<and> val r \<noteq> None)
                     rows))"
proof -
  have "filter (\<lambda>r. notna (val r)) (filter (\<lambda>r. indicator_code r \<noteq> [])
          (filter (\<lambda>r. length (country_iso3 r) = 3) rows))
        = filter (\<lambda>r. length (country_iso3 r) = 3 \<and> indicator_code r \<noteq> [] \<and> val r \<noteq> None) rows"
    by (induction rows) (auto simp: notna_def)
  with assms show ?thesis by (simp add: clean_who_data_def Let_def)
qed



lemma to_int_blanks:
  "to_int (Str (CHR 0x1F # ''2019'')) = None \<and> to_int (Str (CHR 0xA0 # ''2019'')) = Some 2019 \<and>
   to_int (Str '' 2_019 '') = Some 2019 \<and> to_int (Str ''2019.0'') = None"
  by code_simp

text \<open>
  A year that was not read makes the year column a float64 column, also for the rows
  that remain when that record is dropped.
\<close>

lemma clean_who_data_float_year:
  "clean_who_data example_lib raw_float_year = Inr [clean_a\<lparr>year := Some (FloatYear 2019)\<rparr>]"
  by code_simp

text \<open>\<open>int\<close> reads a year of any size.\<close>

lemma clean_who_data_huge_year:
  "clean_who_data example_lib raw_huge_year = Inr [clean_huge_year]"
  by code_simp

text \<open>The example batches have a value column to read.\<close>

lemma raw_same_key_source:
  "use_numeric (normalize_columns raw_same_key) \<or>
   ''value_text'' \<in> set (labels (normalize_columns raw_same_key))"
  by code_simp




lemma raw_mixed_value_source:
  "use_numeric (normalize_columns raw_mixed_value) \<or>
   ''value_text'' \<in> set (labels (normalize_columns raw_mixed_value))"
  by code_simp


text \<open>
  C2, as the spec states it, fails: two raw records that agree on indicator code,
  country, year, sex and region code but differ in their value both reach the output.
\<close>

theorem clean_who_data_key_counterexample:
  "clean_who_data example_lib raw_same_key = Inr [clean_a, clean_a\<lparr>val := Some (799 / 10)\<rparr>] \<and>
   key5 clean_a = key5 (clean_a\<lparr>val := Some (799 / 10)\<rparr>) \<and>
   clean_a \<noteq> clean_a\<lparr>val := Some (799 / 10)\<rparr>"
  by code_simp


text \<open>
  C2, amended. When the batch has a value column to read, \<open>clean_who_data\<close> returns, no
  two rows of its output are equal in all eleven columns, and its rows are exactly the
  coerced rows with a country code of length 3, a non-empty indicator code and a value:
  only rows that are identical in every column are collapsed.
\<close>

theorem clean_who_data_distinct_rows:
  assumes "use_numeric (normalize_columns df_raw) \<or>
           ''value_text'' \<in> set (labels (normalize_columns df_raw))"
  shows "\<exists>rows out.
           coerce_records lib df_raw = Inr rows \<and>
           clean_who_data lib df_raw = Inr out \<and>
           distinct out \<and>
           set out = {r \<in> set rows. length (country_iso3 r) = 3 \<and> indicator_code r \<noteq> [] \<and>
                                      val r \<noteq> None}"
proof -
  let ?rows = "map (\<lambda>i. coerce_record lib (normalize_columns df_raw) i
                           (records (normalize_columns df_raw) ! i))
                  [0..<length (records (normalize_columns df_raw))]"
  let ?keep = "\<lambda>r::clean_row. length (country_iso3 r) = 3 \<and> indicator_code r \<noteq> [] \<and> val r \<noteq> None"
  have r: "coerce_records lib df_raw = Inr ?rows" by (rule coerce_records_Inr [OF assms])
  have c: "clean_who_data lib df_raw = Inr (drop_duplicates (filter ?keep ?rows))"
    by (rule clean_who_data_Inr [OF r])
  have d: "distinct (drop_duplicates (filter ?keep ?rows))" by (rule distinct_drop_duplicates)
  have s: "set (drop_duplicates (filter ?keep ?rows)) = {r \<in> set ?rows. ?keep r}"
    by (simp add: set_drop_duplicates)
  from r c d s show ?thesis by blast
qed


theorem clean_who_data_distinct_rows_witness:
  "\<exists>rows out.
     coerce_records example_lib raw_same_key = Inr rows \<and>
     clean_who_data example_lib raw_same_key = Inr out \<and>
     distinct out \<and>
     set out = {r \<in> set rows. length (country_iso3 r) = 3 \<and> indicator_code r \<noteq> [] \<and>
                                val r \<noteq> None}"
  by (rule clean_who_data_distinct_rows [OF raw_same_key_source])





text \<open>
  C4, as the spec states it, fails: in a batch where some record has a numeric value, a
  record with a missing numeric value is dropped although its text value holds a number.
\<close>

theorem clean_who_data_value_counterexample:
  "clean_who_data example_lib raw_mixed_value = Inr [clean_a] \<and>
   records raw_mixed_value ! 1 = who_record ''DEU'' (Num 2019) ''78.1 [78.1-78.2]'' Null \<and>
   coerce_num (Str ''78.1 [78.1-78.2]'') = Some (781 / 10)"
  by code_simp


text \<open>
  C4, amended. The source of the value is chosen once for the batch: when the batch has a
  numeric value column with at least one entry that is not missing, the value of every
  record is \<open>pd.to_numeric\<close> of its numeric field; otherwise the value of every record
  is the first numeric token of its text value, so that \<open>78.1 [78.1-78.2]\<close> gives 78.1.
  Records whose value is missing are dropped.
\<close>

theorem clean_who_data_value_source:
  assumes "use_numeric (normalize_columns df_raw) \<or>
           ''value_text'' \<in> set (labels (normalize_columns df_raw))"
  shows "\<exists>rows out.
           coerce_records lib df_raw = Inr rows \<and>
           clean_who_data lib df_raw = Inr out \<and>
           length rows = length (records (normalize_columns df_raw)) \<and>
           (\<forall>i<length rows.
              val (rows ! i) =
                (if use_numeric (normalize_columns df_raw)
                 then (case cell_of (normalize_columns df_raw)
                              (records (normalize_columns df_raw) ! i) ''value_numeric''
                       of Some x \<Rightarrow> to_numeric lib x | None \<Rightarrow> None)
                 else (case cell_of (normalize_columns df_raw)
                              (records (normalize_columns df_raw) ! i) ''value_text''
                       of Some x \<Rightarrow> coerce_num x | None \<Rightarrow> None))) \<and>
           (\<forall>r\<in>set rows. val r = None \<longrightarrow> r \<notin> set out) \<and>
           (\<forall>r\<in>set out. val r \<noteq> None) \<and>
           coerce_num (Str ''78.1 [78.1-78.2]'') = Some (781 / 10)"
proof -
  let ?df = "normalize_columns df_raw"
  let ?rows = "map (\<lambda>i. coerce_record lib ?df i (records ?df ! i)) [0..<length (records ?df)]"
  let ?keep = "\<lambda>r::clean_row. length (country_iso3 r) = 3 \<and> indicator_code r \<noteq> [] \<and> val r \<noteq> None"
  have r: "coerce_records lib df_raw = Inr ?rows" by (rule coerce_records_Inr [OF assms])
  have c: "clean_who_data lib df_raw = Inr (drop_duplicates (filter ?keep ?rows))"
    by (rule clean_who_data_Inr [OF r])
  have l: "length ?rows = length (records ?df)" by simp
  have v: "\<forall>i<length ?rows. val (?rows ! i) =
             (if use_numeric ?df
              then (case cell_of ?df (records ?df ! i) ''value_numeric''
                    of Some x \<Rightarrow> to_numeric lib x | None \<Rightarrow> None)
              else (case cell_of ?df (records ?df ! i) ''value_text''
                    of Some x \<Rightarrow> coerce_num x | None \<Rightarrow> None))"
    by (simp add: coerce_record_def)
  have m1: "\<forall>r\<in>set ?rows. val r = None \<longrightarrow> r \<notin> set (drop_duplicates (filter ?keep ?rows))"
    by (simp add: set_drop_duplicates)
  have m2: "\<forall>r\<in>set (drop_duplicates (filter ?keep ?rows)). val r \<noteq> None"
    by (simp add: set_drop_duplicates)
  have e: "coerce_num (Str ''78.1 [78.1-78.2]'') = Some (781 / 10)" by code_simp
  from r c l v m1 m2 e show ?thesis by blast
qed

theorem clean_who_data_value_source_witness:
  "\<exists>rows out.
     coerce_records example_lib raw_mixed_value = Inr rows \<and>
     clean_who_data example_lib raw_mixed_value = Inr out \<and>
     length rows = length (records (normalize_columns raw_mixed_value)) \<and>
     (\<forall>i<length rows.
        val (rows ! i) =
          (if use_numeric (normalize_columns raw_mixed_value)
           then (case cell_of (normalize_columns raw_mixed_value)
                        (records (normalize_columns raw_mixed_value) ! i) ''value_numeric''
                 of Some x \<Rightarrow> to_numeric example_lib x | None \<Rightarrow> None)
           else (case cell_of (normalize_columns raw_mixed_value)
                        (records (normalize_columns raw_mixed_value) ! i) ''value_text''
                 of Some x \<Rightarrow> coerce_num x | None \<Rightarrow> None))) \<and>
     (\<forall>r\<in>set rows. val r = None \<longrightarrow> r \<notin> set out) \<and>
     (\<forall>r\<in>set out. val r \<noteq> None) \<and>
     coerce_num (Str ''78.1 [78.1-78.2]'') = Some (781 / 10)"
  by (rule clean_who_data_value_source [OF raw_mixed_value_source])

section \<open>Properties of the Feature Engine\<close>

lemma carried_feature_at: "carried (feature_at df k) = carried (df ! k)"
  by (simp add: carried_def feature_at_def Let_def)

lemma sort_tuple_feature_at: "sort_tuple (feature_at df k) = sort_tuple (df ! k)"
  by (simp add: sort_tuple_def feature_at_def Let_def)

lemma value_pct_change_feature_at:
  "value_pct_change (feature_at df k) = pct_change (val (df ! k)) (shift1 df k)"
  by (simp add: feature_at_def Let_def)

lemma sex_feature_at: "sex (feature_at df k) = sex (df ! k)"
  by (simp add: feature_at_def Let_def)

lemma engineer_features_TypeError:
  assumes "\<not> years_int64 df_clean"
  shows "engineer_features df_clean = Inl TypeError"
  using assms by (simp add: engineer_features_def)

lemma engineer_features_Inr:
  assumes "years_int64 df_clean"
  shows "engineer_features df_clean
           = Inr (map (feature_at (sort_values df_clean)) [0..<length df_clean])"
proof -
  let ?df = "sort_values df_clean"
  let ?out = "map (feature_at ?df) [0..<length ?df]"
  have "map sort_tuple ?out = map sort_tuple ?df"
    by (rule nth_equalityI) (simp_all add: sort_tuple_feature_at)
  also have "sorted \<dots>" by (simp add: sort_values_def)
  finally have "sort_values ?out = ?out"
    unfolding sort_values_def by (rule sort_key_id_if_sorted)
  then show ?thesis using assms by (simp add: engineer_features_def Let_def sort_values_def)
qed

lemma pct_change_undefined: "pct_change v None = None \<and> pct_change v (Some 0) = None"
  by (simp add: pct_change_def split: option.splits)

lemma pct_change_defined:
  assumes "p \<noteq> 0"
  shows "pct_change (Some x) (Some p) = Some (100 * (x - p) / p)"
  using assms by (simp add: pct_change_def)

text \<open>The report date of the cleaned rows has no part in the feature table.\<close>

lemma insort_key_map_same:
  assumes "\<And>x. k (f x) = k x"
  shows "insort_key k (f x) (map f ys) = map f (insort_key k x ys)"
  by (induction ys) (simp_all add: assms)

lemma sort_key_map_same:
  assumes "\<And>x. k (f x) = k x"
  shows "sort_key k (map f xs) = map f (sort_key k xs)"
  by (induction xs) (simp_all add: insort_key_map_same [of k f, OF assms])

lemma group_before_map:
  assumes "\<And>x. key (f x) = key x" and "k < length df"
  shows "group_before key (map f df) k = map f (group_before key df k)"
  using assms(2) by (simp add: group_before_def take_map filter_map comp_def assms(1))

lemma group_of_map:
  assumes "\<And>x. key (f x) = key x" and "k < length df"
  shows "group_of key (map f df) k = map f (group_of key df k)"
  using assms(2) by (simp add: group_of_def filter_map comp_def assms(1))

lemma feature_at_date_reported:
  assumes "k < length df"
  shows "feature_at (map (\<lambda>r. r\<lparr>date_reported := d\<rparr>) df) k = feature_at df k"
proof -
  let ?f = "\<lambda>r::clean_row. r\<lparr>date_reported := d\<rparr>"
  have g: "group_before grp (map ?f df) k = map ?f (group_before grp df k)"
    by (rule group_before_map [OF _ assms]) (simp add: grp_def)
  have v: "map val (map ?f xs) = map val xs" for xs by (induction xs) simp_all
  have r: "rolling3_mean (map ?f df) k = rolling3_mean df k"
    using assms by (simp add: rolling3_mean_def g Let_def comp_def)
  have s: "shift1 (map ?f df) k = shift1 df k"
    by (cases "group_before grp df k") (simp_all add: shift1_def g last_map)
  have z1: "map val (group_of indicator_code (map ?f df) k) = map val (group_of indicator_code df k)"
    by (subst group_of_map [OF _ assms]) (simp_all add: v)
  have z2: "map val (group_of (\<lambda>r. (indicator_code r, map_option year_num (year r))) (map ?f df) k)
            = map val (group_of (\<lambda>r. (indicator_code r, map_option year_num (year r))) df k)"
    by (subst group_of_map [OF _ assms]) (simp_all add: v)
  show ?thesis
    using assms by (simp add: feature_at_def Let_def r s z1 z2 split: option.splits)
qed

lemma engineer_features_date_reported:
  "engineer_features (map (\<lambda>r. r\<lparr>date_reported := d\<rparr>) df_clean) = engineer_features df_clean"
proof -
  let ?f = "\<lambda>r::clean_row. r\<lparr>date_reported := d\<rparr>"
  have y: "years_int64 (map ?f df_clean) = years_int64 df_clean"
    by (simp add: years_int64_def list_all_iff)
  have s: "sort_values (map ?f df_clean) = map ?f (sort_values df_clean)"
    unfolding sort_values_def by (rule sort_key_map_same) (simp add: sort_tuple_def)
  show ?thesis
  proof (cases "years_int64 df_clean")
    case False
    with y show ?thesis by (simp add: engineer_features_TypeError)
  next
    case True
    have l: "length (sort_values df_clean) = length df_clean" by (simp add: sort_values_def)
    have "map (feature_at (map ?f (sort_values df_clean))) [0..<length df_clean]
          = map (feature_at (sort_values df_clean)) [0..<length df_clean]"
      by (rule map_cong) (simp_all add: feature_at_date_reported l)
    with True y s show ?thesis by (simp add: engineer_features_Inr)
  qed
qed

text \<open>The example rows.\<close>

lemma sort_values_two_sexes: "sort_values two_sexes = two_sexes"
  by code_simp

lemma years_int64_two_sexes: "years_int64 two_sexes"
  by code_simp

lemma shift1_two_sexes: "shift1 two_sexes 0 = None \<and> shift1 two_sexes 1 = Some 10"
  by code_simp

lemma years_int64_clean_huge_year: "\<not> years_int64 [clean_huge_year]"
  by code_simp

text \<open>
  C10, as the spec states it, fails: on a cleaned row whose year does not fit 64 bits
  \<open>engineer_features\<close> raises and returns no row, and the report date of a cleaned row
  is not in the output, so that two batches that differ in it give the same feature
  table: the function does more than add columns and sort.
\<close>

theorem engineer_features_rows_counterexample:
  "engineer_features [clean_huge_year] = Inl TypeError \<and>
   engineer_features [clean_dated] = engineer_features [clean_a] \<and>
   clean_dated \<noteq> clean_a"
proof -
  have 1: "engineer_features [clean_huge_year] = Inl TypeError"
    by (rule engineer_features_TypeError [OF years_int64_clean_huge_year])
  have "[clean_dated] = map (\<lambda>r. r\<lparr>date_reported := Some 1\<rparr>) [clean_a]"
    by (simp add: clean_dated_def)
  then have 2: "engineer_features [clean_dated] = engineer_features [clean_a]"
    by (simp only: engineer_features_date_reported)
  have 3: "clean_dated \<noteq> clean_a" by code_simp
  from 1 2 3 show ?thesis by (intro conjI)
qed

text \<open>
  C10, amended. When every year of the cleaned batch is missing or an integer of 64
  bits, \<open>engineer_features\<close> returns as many rows as it is given; the columns id,
  indicator\_code, country\_iso3, region\_code, region, year, sex, value, low and high of
  its output are those of the input rows in the stable order of
  (indicator\_code, country\_iso3, year), so the output rows are the input rows with
  multiplicity, none dropped, added or merged, and the output is sorted by that key.
  Otherwise it raises a TypeError. It does not keep the report date: the output is the
  same whatever the report dates of the input are.
\<close>

theorem engineer_features_rows:
  "(years_int64 df_clean \<longrightarrow>
      (\<exists>out. engineer_features df_clean = Inr out \<and>
         length out = length df_clean \<and>
         map carried out = map carried (sort_key sort_tuple df_clean) \<and>
         mset (map carried out) = mset (map carried df_clean) \<and>
         sorted (map sort_tuple out))) \<and>
   (\<not> years_int64 df_clean \<longrightarrow> engineer_features df_clean = Inl TypeError) \<and>
   engineer_features (map (\<lambda>r. r\<lparr>date_reported := d\<rparr>) df_clean) = engineer_features df_clean"
proof (intro conjI impI)
  assume ok: "years_int64 df_clean"
  let ?df = "sort_values df_clean"
  let ?out = "map (feature_at ?df) [0..<length df_clean]"
  have len: "length ?df = length df_clean" by (simp add: sort_values_def)
  have e: "engineer_features df_clean = Inr ?out" by (rule engineer_features_Inr [OF ok])
  have c: "map carried ?out = map carried ?df"
    by (rule nth_equalityI) (simp_all add: carried_feature_at len)
  have t: "map sort_tuple ?out = map sort_tuple ?df"
    by (rule nth_equalityI) (simp_all add: sort_tuple_feature_at len)
  have 1: "length ?out = length df_clean" by simp
  have 2: "map carried ?out = map carried (sort_key sort_tuple df_clean)"
    using c by (simp add: sort_values_def)
  have 3: "mset (map carried ?out) = mset (map carried df_clean)"
    unfolding c by (simp add: sort_values_def)
  have 4: "sorted (map sort_tuple ?out)"
    unfolding t by (simp add: sort_values_def)
  from e 1 2 3 4
  show "\<exists>out. engineer_features df_clean = Inr out \<and>
         length out = length df_clean \<and>
         map carried out = map carried (sort_key sort_tuple df_clean) \<and>
         mset (map carried out) = mset (map carried df_clean) \<and>
         sorted (map sort_tuple out)"
    by (intro exI [of _ ?out] conjI)
next
  assume "\<not> years_int64 df_clean"
  then show "engineer_features df_clean = Inl TypeError" by (rule engineer_features_TypeError)
next
  show "engineer_features (map (\<lambda>r. r\<lparr>date_reported := d\<rparr>) df_clean) = engineer_features df_clean"
    by (rule engineer_features_date_reported)
qed

theorem engineer_features_rows_witness:
  "\<exists>out. engineer_features two_sexes = Inr out \<and>
     length out = 2 \<and> map carried out = map carried two_sexes"
proof -
  note A = engineer_features_rows [of two_sexes None]
  have l: "length two_sexes = 2" by code_simp
  have s: "sort_key sort_tuple two_sexes = two_sexes"
    using sort_values_two_sexes by (simp only: sort_values_def)
  from A have "years_int64 two_sexes \<longrightarrow>
      (\<exists>out. engineer_features two_sexes = Inr out \<and>
         length out = length two_sexes \<and>
         map carried out = map carried (sort_key sort_tuple two_sexes) \<and>
         mset (map carried out) = mset (map carried two_sexes) \<and>
         sorted (map sort_tuple out))"
    by (rule conjunct1)
  with years_int64_two_sexes obtain out where
    e: "engineer_features two_sexes = Inr out" and n: "length out = length two_sexes"
    and c: "map carried out = map carried (sort_key sort_tuple two_sexes)"
    by auto
  from n have n2: "length out = 2" by (simp only: l)
  from c have c2: "map carried out = map carried two_sexes" by (simp only: s)
  show ?thesis by (intro exI [of _ out] conjI) (rule e n2 c2)+
qed

text \<open>
  C5. The code differs from the claim (and from its own comment, "growth rate vs
  previous year") on a group that holds two rows of one year: the second row's percent
  change is taken against the first row, of the same year, where the claim gives an
  undefined result because the group has no earlier year. For the rows
  (SEX\_MLE, 2020, 10) and (SEX\_FMLE, 2020, 20) of one indicator and country the code
  yields a percent change of 100 on the second.
\<close>

theorem value_pct_change_same_year:
  "map year two_sexes = [Some (IntYear 2020), Some (IntYear 2020)] \<and>
   (\<exists>out. engineer_features two_sexes = Inr out \<and>
      map sex out = [''SEX_MLE'', ''SEX_FMLE''] \<and>
      map value_pct_change out = [None, Some 100])"
proof -
  have u: "[0..<length two_sexes] = [0, 1]" by code_simp
  have e: "engineer_features two_sexes = Inr [feature_at two_sexes 0, feature_at two_sexes 1]"
    by (simp only: engineer_features_Inr [OF years_int64_two_sexes] sort_values_two_sexes u
        list.map)
  have p0: "pct_change (val (two_sexes ! 0)) (shift1 two_sexes 0) = None" by code_simp
  have p1: "pct_change (val (two_sexes ! 1)) (shift1 two_sexes 1) = Some 100" by code_simp
  have s0: "sex (two_sexes ! 0) = ''SEX_MLE''" by code_simp
  have s1: "sex (two_sexes ! 1) = ''SEX_FMLE''" by code_simp
  have y: "map year two_sexes = [Some (IntYear 2020), Some (IntYear 2020)]" by code_simp
  have s: "map sex [feature_at two_sexes 0, feature_at two_sexes 1] = [''SEX_MLE'', ''SEX_FMLE'']"
    by (simp only: list.map sex_feature_at s0 s1)
  have p: "map value_pct_change [feature_at two_sexes 0, feature_at two_sexes 1] = [None, Some 100]"
    by (simp only: list.map value_pct_change_feature_at p0 p1)
  show ?thesis
    by (intro conjI exI [of _ "[feature_at two_sexes 0, feature_at two_sexes 1]"])
      (rule y e s p)+
qed

section \<open>Properties of the Splitter\<close>

lemma astype_int_Inl:
  assumes "None \<in> set ys"
  shows "astype_int ys = Inl ValueError"
  using assms
proof (induction ys)
  case Nil
  then show ?case by simp
next
  case (Cons a ys)
  show ?case
  proof (cases a)
    case None
    then show ?thesis by simp
  next
    case (Some c)
    with Cons.prems have "None \<in> set ys" by simp
    with Cons.IH Some show ?thesis by simp
  qed
qed

lemma astype_int_Inr:
  assumes "None \<notin> set ys"
  shows "astype_int ys = Inr (map (\<lambda>y. cast_int (the y)) ys)"
  using assms
proof (induction ys)
  case Nil
  then show ?case by simp
next
  case (Cons a ys)
  then obtain c where "a = Some c" by (cases a) auto
  with Cons show ?case by simp
qed

lemma map2_cast:
  assumes "None \<notin> set (map year df)"
  shows "map2 (\<lambda>r y. r\<lparr>year := Some (IntYear y)\<rparr>) df (map (\<lambda>y. cast_int (the y)) (map year df))
           = map (\<lambda>r. r\<lparr>year := map_option (\<lambda>c. IntYear (cast_int c)) (year r)\<rparr>) df"
  using assms
proof (induction df)
  case Nil
  then show ?case by simp
next
  case (Cons a df)
  then obtain c where "year a = Some c" by (cases "year a") auto
  with Cons show ?case by simp
qed

text \<open>What the call leaves in the caller's frame, and what it returns.\<close>

lemma split_by_year_raises:
  assumes "\<exists>r\<in>set df. year r = None"
  shows "split_by_year df = (df, Inl ValueError)"
proof -
  from assms have "None \<in> set (map year df)" by force
  then have "astype_int (map year df) = Inl ValueError" by (rule astype_int_Inl)
  then show ?thesis by (simp add: split_by_year_def)
qed

lemma split_by_year_returns:
  assumes "\<forall>r\<in>set df. year r \<noteq> None"
  shows "split_by_year df =
           (map (\<lambda>r. r\<lparr>year := map_option (\<lambda>c. IntYear (cast_int c)) (year r)\<rparr>) df,
            Inr (filter (\<lambda>r. year_le r 2017)
                   (map (\<lambda>r. r\<lparr>year := map_option (\<lambda>c. IntYear (cast_int c)) (year r)\<rparr>) df),
                 filter (\<lambda>r. year_ge r 2018 \<and> year_le r 2022)
                   (map (\<lambda>r. r\<lparr>year := map_option (\<lambda>c. IntYear (cast_int c)) (year r)\<rparr>) df)))"
proof -
  have n: "None \<notin> set (map year df)" using assms by auto
  have a: "astype_int (map year df) = Inr (map (\<lambda>y. cast_int (the y)) (map year df))"
    by (rule astype_int_Inr [OF n])
  show ?thesis
    unfolding split_by_year_def a by (simp only: sum.case Let_def map2_cast [OF n])
qed

lemma cast_int_year_int64:
  assumes "year_int64 c"
  shows "real_of_int (cast_int c) = year_num c"
proof (cases c)
  case (IntYear n)
  then show ?thesis by (simp add: cast_int_def year_num_def)
next
  case (FloatYear x)
  with assms have x: "x = real_of_int \<lfloor>x\<rfloor>" by (simp add: year_int64_def)
  have "trunc x = \<lfloor>x\<rfloor>"
  proof (cases "0 \<le> x")
    case True
    then show ?thesis by (simp add: trunc_def)
  next
    case False
    have "\<lceil>x\<rceil> = \<lceil>real_of_int \<lfloor>x\<rfloor>\<rceil>" using x by simp
    then have "\<lceil>x\<rceil> = \<lfloor>x\<rfloor>" by (simp only: ceiling_of_int)
    with False show ?thesis by (simp add: trunc_def)
  qed
  with FloatYear x show ?thesis by (simp add: cast_int_def year_num_def)
qed

text \<open>
  C8, as the spec states it, fails: in a batch with a row whose year is missing the cast
  raises, and a row of the batch with year 2015 reaches neither output.
\<close>

theorem split_by_year_partition_counterexample:
  "map year undated_batch = [Some (IntYear 2015), None] \<and>
   snd (split_by_year undated_batch) = Inl ValueError"
proof -
  have y: "map year undated_batch = [Some (IntYear 2015), None]"
    by (simp add: undated_batch_def)
  then have "\<exists>r\<in>set undated_batch. year r = None"
    by (simp add: undated_batch_def)
  then have "split_by_year undated_batch = (undated_batch, Inl ValueError)"
    by (rule split_by_year_raises)
  with y show ?thesis by simp
qed

text \<open>
  C8, amended. For a feature table whose years are missing or integers of 64 bits, as
  \<open>engineer_features\<close> returns it: when every row has a year, \<open>split_by_year\<close> returns
  the rows with year at most 2017 as the training set and the rows with year from 2018
  to 2022 as the test set, each in the order of the input and with the year stored as an
  integer; a row of the input is in the training set exactly when its year is at most
  2017, in the test set exactly when its year is from 2018 to 2022, in neither
  otherwise, and no row is in both. When the year of some row is missing,
  \<open>split_by_year\<close> raises a ValueError and returns neither set.
\<close>

theorem split_by_year_partition:
  assumes "years_int64 df"
  shows "((\<forall>r\<in>set df. year r \<noteq> None) \<longrightarrow>
            (\<exists>train_df test_df.
               snd (split_by_year df) = Inr (train_df, test_df) \<and>
               train_df =
                 map (\<lambda>r. r\<lparr>year := map_option (\<lambda>c. IntYear (cast_int c)) (year r)\<rparr>)
                   (filter (\<lambda>r. \<exists>c. year r = Some c \<and> year_num c \<le> 2017) df) \<and>
               test_df =
                 map (\<lambda>r. r\<lparr>year := map_option (\<lambda>c. IntYear (cast_int c)) (year r)\<rparr>)
                   (filter (\<lambda>r. \<exists>c. year r = Some c \<and> 2018 \<le> year_num c \<and> year_num c \<le> 2022) df) \<and>
               (\<forall>r\<in>set df.
                  (r\<lparr>year := map_option (\<lambda>c. IntYear (cast_int c)) (year r)\<rparr> \<in> set train_df
                     \<longleftrightarrow> (\<exists>c. year r = Some c \<and> year_num c \<le> 2017)) \<and>
                  (r\<lparr>year := map_option (\<lambda>c. IntYear (cast_int c)) (year r)\<rparr> \<in> set test_df
                     \<longleftrightarrow> (\<exists>c. year r = Some c \<and> 2018 \<le> year_num c \<and> year_num c \<le> 2022))) \<and>
               (\<forall>r\<in>set train_df. \<exists>y. year r = Some (IntYear y) \<and> y \<le> 2017) \<and>
               (\<forall>r\<in>set test_df. \<exists>y. year r = Some (IntYear y) \<and> 2018 \<le> y \<and> y \<le> 2022) \<and>
               set train_df \<inter> set test_df = {})) \<and>
         ((\<exists>r\<in>set df. year r = None) \<longrightarrow> snd (split_by_year df) = Inl ValueError)"
proof (intro conjI impI)
  assume all: "\<forall>r\<in>set df. year r \<noteq> None"
  let ?cast = "\<lambda>r::feature_row. r\<lparr>year := map_option (\<lambda>c. IntYear (cast_int c)) (year r)\<rparr>"
  let ?P = "\<lambda>r::feature_row. \<exists>c. year r = Some c \<and> year_num c \<le> 2017"
  let ?Q = "\<lambda>r::feature_row. \<exists>c. year r = Some c \<and> 2018 \<le> year_num c \<and> year_num c \<le> 2022"
  have num: "real_of_int (cast_int c) = year_num c" if "r \<in> set df" "year r = Some c" for r c
  proof -
    from assms that have "year_int64 c" by (auto simp: years_int64_def list_all_iff)
    then show ?thesis by (rule cast_int_year_int64)
  qed
  have le: "year_le (?cast r) 2017 \<longleftrightarrow> ?P r" if "r \<in> set df" for r
    using num [OF that] by (cases "year r") (simp_all add: year_le_def year_num_def)
  have ge: "(year_ge (?cast r) 2018 \<and> year_le (?cast r) 2022) \<longleftrightarrow> ?Q r" if "r \<in> set df" for r
    using num [OF that] by (cases "year r") (simp_all add: year_le_def year_ge_def year_num_def)
  have tr: "filter (\<lambda>r. year_le r 2017) (map ?cast df) = map ?cast (filter ?P df)"
    unfolding filter_map comp_def by (rule arg_cong [of _ _ "map ?cast"], rule filter_cong) (simp_all add: le)
  have te: "filter (\<lambda>r. year_ge r 2018 \<and> year_le r 2022) (map ?cast df) = map ?cast (filter ?Q df)"
    unfolding filter_map comp_def by (rule arg_cong [of _ _ "map ?cast"], rule filter_cong) (simp_all add: ge)
  have res: "snd (split_by_year df) = Inr (map ?cast (filter ?P df), map ?cast (filter ?Q df))"
    by (simp add: split_by_year_returns [OF all] tr te)
  have a: "\<forall>r\<in>set (map ?cast (filter ?P df)). \<exists>y. year r = Some (IntYear y) \<and> y \<le> 2017"
  proof
    fix r' assume "r' \<in> set (map ?cast (filter ?P df))"
    then obtain r c where r: "r \<in> set df" "year r = Some c" "year_num c \<le> 2017" "r' = ?cast r"
      by auto
    from num [OF r(1,2)] r(3) have "cast_int c \<le> 2017" by linarith
    with r show "\<exists>y. year r' = Some (IntYear y) \<and> y \<le> 2017" by simp
  qed
  have b: "\<forall>r\<in>set (map ?cast (filter ?Q df)). \<exists>y. year r = Some (IntYear y) \<and> 2018 \<le> y \<and> y \<le> 2022"
  proof
    fix r' assume "r' \<in> set (map ?cast (filter ?Q df))"
    then obtain r c where r: "r \<in> set df" "year r = Some c" "2018 \<le> year_num c" "year_num c \<le> 2022"
      "r' = ?cast r"
      by auto
    from num [OF r(1,2)] r(3,4) have "2018 \<le> cast_int c \<and> cast_int c \<le> 2022" by linarith
    with r show "\<exists>y. year r' = Some (IntYear y) \<and> 2018 \<le> y \<and> y \<le> 2022" by simp
  qed
  have m: "(?cast r \<in> set (map ?cast (filter ?P df)) \<longleftrightarrow> ?P r) \<and>
           (?cast r \<in> set (map ?cast (filter ?Q df)) \<longleftrightarrow> ?Q r)" if r: "r \<in> set df" for r
  proof (intro conjI iffI)
    assume "?P r"
    with r show "?cast r \<in> set (map ?cast (filter ?P df))" by simp
  next
    assume "?Q r"
    with r show "?cast r \<in> set (map ?cast (filter ?Q df))" by simp
  next
    assume "?cast r \<in> set (map ?cast (filter ?P df))"
    with a obtain y where y: "year (?cast r) = Some (IntYear y)" "y \<le> 2017" by blast
    then obtain c where c: "year r = Some c" "cast_int c = y" by (cases "year r") auto
    from num [OF r c(1)] c(2) y(2) have "year_num c \<le> 2017" by linarith
    with c show "?P r" by simp
  next
    assume "?cast r \<in> set (map ?cast (filter ?Q df))"
    with b obtain y where y: "year (?cast r) = Some (IntYear y)" "2018 \<le> y" "y \<le> 2022" by blast
    then obtain c where c: "year r = Some c" "cast_int c = y" by (cases "year r") auto
    from num [OF r c(1)] c(2) y(2,3) have "2018 \<le> year_num c \<and> year_num c \<le> 2022" by linarith
    with c show "?Q r" by simp
  qed
  have d: "set (map ?cast (filter ?P df)) \<inter> set (map ?cast (filter ?Q df)) = {}"
  proof -
    have "False" if "r \<in> set (map ?cast (filter ?P df))" "r \<in> set (map ?cast (filter ?Q df))" for r
    proof -
      from a that(1) obtain y where y: "year r = Some (IntYear y)" "y \<le> 2017" by blast
      from b that(2) obtain z where z: "year r = Some (IntYear z)" "2018 \<le> z" by blast
      from y z show False by simp
    qed
    then show ?thesis by blast
  qed
  from res a b d m
  show "\<exists>train_df test_df.
               snd (split_by_year df) = Inr (train_df, test_df) \<and>
               train_df = map ?cast (filter ?P df) \<and>
               test_df = map ?cast (filter ?Q df) \<and>
               (\<forall>r\<in>set df. (?cast r \<in> set train_df \<longleftrightarrow> ?P r) \<and>
                           (?cast r \<in> set test_df \<longleftrightarrow> ?Q r)) \<and>
               (\<forall>r\<in>set train_df. \<exists>y. year r = Some (IntYear y) \<and> y \<le> 2017) \<and>
               (\<forall>r\<in>set test_df. \<exists>y. year r = Some (IntYear y) \<and> 2018 \<le> y \<and> y \<le> 2022) \<and>
               set train_df \<inter> set test_df = {}"
    by blast
next
  assume "\<exists>r\<in>set df. year r = None"
  then show "snd (split_by_year df) = Inl ValueError"
    by (simp add: split_by_year_raises)
qed

theorem split_by_year_partition_witness:
  "snd (split_by_year [example_row, example_row\<lparr>year := Some (FloatYear 2017)\<rparr>,
                       example_row\<lparr>year := Some (IntYear 2026)\<rparr>])
     = Inr ([example_row\<lparr>year := Some (IntYear 2017)\<rparr>], [example_row])"
proof -
  let ?df = "[example_row, example_row\<lparr>year := Some (FloatYear 2017)\<rparr>,
              example_row\<lparr>year := Some (IntYear 2026)\<rparr>]"
  have y: "year example_row = Some (IntYear 2019)" by (simp add: example_row_def)
  have f: "year_int64 (FloatYear 2017)" by (simp add: year_int64_def in_int64_def)
  have i: "year_int64 (IntYear 2019)" "year_int64 (IntYear 2026)"
    by (simp_all add: year_int64_def in_int64_def)
  have ok: "years_int64 ?df" by (simp add: years_int64_def y f i)
  have h: "\<forall>r\<in>set ?df. year r \<noteq> None" by (simp add: y)
  have t: "cast_int (FloatYear 2017) = 2017" by (simp add: cast_int_def trunc_def)
  note ex = split_by_year_partition [OF ok, THEN conjunct1, THEN mp, OF h]
  from ex
 have "snd (split_by_year ?df) =
          Inr (map (\<lambda>r. r\<lparr>year := map_option (\<lambda>c. IntYear (cast_int c)) (year r)\<rparr>)
                   (filter (\<lambda>r. \<exists>c. year r = Some c \<and> year_num c \<le> 2017) ?df),
               map (\<lambda>r. r\<lparr>year := map_option (\<lambda>c. IntYear (cast_int c)) (year r)\<rparr>)
                   (filter (\<lambda>r. \<exists>c. year r = Some c \<and> 2018 \<le> year_num c \<and> year_num c \<le> 2022) ?df))"
    by (elim exE conjE) simp
  then show ?thesis by (simp add: y t year_num_def) (simp add: cast_int_def example_row_def)
qed

text \<open>
  The frame in the caller's hands after the call: unchanged when the cast raises,
  otherwise with every year stored as the integer the cast gives.
\<close>

lemma split_by_year_writes:
  "fst (split_by_year df) =
     (if \<exists>r\<in>set df. year r = None then df
      else map (\<lambda>r. r\<lparr>year := map_option (\<lambda>c. IntYear (cast_int c)) (year r)\<rparr>) df)"
proof (cases "\<exists>r\<in>set df. year r = None")
  case True
  then show ?thesis by (simp add: split_by_year_raises)
next
  case False
  then have all: "\<forall>r\<in>set df. year r \<noteq> None" by simp
  have "fst (split_by_year df)
          = map (\<lambda>r. r\<lparr>year := map_option (\<lambda>c. IntYear (cast_int c)) (year r)\<rparr>) df"
    by (simp only: split_by_year_returns [OF all] fst_conv)
  with False show ?thesis by (simp only: if_False)
qed

text \<open>
  C9. The code differs from the claim: \<open>split_by_year\<close> assigns the cast year column to
  the frame it was given, which it did not copy (every other stage copies its input
  first). On a table whose year column is a float64 column, the caller's frame holds an
  integer column after the call: the year of the row is the float 2015 before and the
  integer 2015 after.
\<close>

theorem split_by_year_frame:
  "fst (split_by_year float_year_batch) = [example_row\<lparr>year := Some (IntYear 2015)\<rparr>] \<and>
   fst (split_by_year float_year_batch) \<noteq> float_year_batch \<and>
   map year float_year_batch = [Some (FloatYear 2015)] \<and>
   map year (fst (split_by_year float_year_batch)) = [Some (IntYear 2015)]"
proof -
  have n: "\<not> (\<exists>r\<in>set float_year_batch. year r = None)"
    by (simp add: float_year_batch_def)
  have t: "cast_int (FloatYear 2015) = 2015" by (simp add: cast_int_def trunc_def)
  have 1: "fst (split_by_year float_year_batch) = [example_row\<lparr>year := Some (IntYear 2015)\<rparr>]"
    unfolding split_by_year_writes using n by (simp add: float_year_batch_def t)
  have 3: "map year float_year_batch = [Some (FloatYear 2015)]"
    by (simp add: float_year_batch_def)
  have 4: "map year (fst (split_by_year float_year_batch)) = [Some (IntYear 2015)]"
    unfolding 1 by simp
  have 2: "fst (split_by_year float_year_batch) \<noteq> float_year_batch"
  proof
    assume e: "fst (split_by_year float_year_batch) = float_year_batch"
    from 4 have "map year float_year_batch = [Some (IntYear 2015)]" by (simp only: e)
    with 3 show False by simp
  qed
  from 1 2 3 4 show ?thesis by (intro conjI)
qed

section \<open>Properties of schema alignment\<close>

lemma columns_reindex: "columns (reindex T v X) = T"
  by (simp add: columns_def reindex_def comp_def)

lemma nrows_reindex: "nrows (reindex T v X) = nrows X"
  by (simp add: reindex_def)

lemma map_of_tabulate:
  "map_of (map (\<lambda>c. (c, g c)) T) c = (if c \<in> set T then Some (g c) else None)"
  by (induction T) auto

lemma map_of_reindex:
  "map_of (cols (reindex T v X)) c =
     (if c \<in> set T
      then Some (case map_of (cols X) c of Some col \<Rightarrow> col | None \<Rightarrow> replicate (nrows X) v)
      else None)"
  by (simp add: reindex_def map_of_tabulate)

lemma tabulate_distinct:
  "distinct (map fst xs) \<Longrightarrow>
   map (\<lambda>c. (c, case map_of xs c of Some col \<Rightarrow> col | None \<Rightarrow> d)) (map fst xs) = xs"
proof (induction xs)
  case Nil
  then show ?case by simp
next
  case (Cons x xs)
  obtain k col where x: "x = (k, col)" by (cases x)
  from Cons.prems x have k: "k \<notin> fst ` set xs" and d: "distinct (map fst xs)" by auto
  have "map (\<lambda>c. (c, case map_of (x # xs) c of Some col \<Rightarrow> col | None \<Rightarrow> d)) (map fst xs)
        = map (\<lambda>c. (c, case map_of xs c of Some col \<Rightarrow> col | None \<Rightarrow> d)) (map fst xs)"
    using k x by (intro map_cong) auto
  with Cons.IH [OF d] x show ?case by simp
qed

lemma reindex_own_columns:
  assumes "distinct (columns X)"
  shows "reindex (columns X) v X = (X :: frame)"
proof -
  have d: "distinct (map fst (cols X))" using assms by (simp add: columns_def)
  have "cols (reindex (columns X) v X) = cols X"
    unfolding reindex_def columns_def frame.select_convs by (rule tabulate_distinct [OF d])
  moreover have "nrows (reindex (columns X) v X) = nrows X" by (rule nrows_reindex)
  ultimately show ?thesis by simp
qed

lemma reindex_reindex: "reindex T v (reindex T v X) = reindex T v X"
proof -
  have "map (\<lambda>c. (c, case map_of (cols (reindex T v X)) c of
                        Some col \<Rightarrow> col | None \<Rightarrow> replicate (nrows (reindex T v X)) v)) T
        = cols (reindex T v X)"
    unfolding map_of_reindex by (simp add: reindex_def)
  then show ?thesis by (simp add: reindex_def [of T v "reindex T v X"] nrows_reindex)
qed

lemma entry_reindex:
  assumes "c \<in> set T" and "i < nrows X"
  shows "entry (reindex T v X) c i =
           Some (case map_of (cols X) c of Some col \<Rightarrow> col ! i | None \<Rightarrow> v)"
  using assms by (simp add: entry_def map_of_reindex split: option.splits)

lemma dummy_name_inject: "dummy_name p v = dummy_name p w \<longleftrightarrow> v = w"
  by (simp add: dummy_name_def)

lemma cols_prep_xy:
  "cols (fst (prep_xy df)) =
     map (\<lambda>(c, f). (c, map (\<lambda>r. fillna 0 (f r)) df)) FEATURES @
     concat (map (\<lambda>(c, f). get_dummies_1d c (map f df)) CAT_COLS)"
  by (simp add: prep_xy_def Let_def)

lemma set_get_dummies_1d:
  "set (get_dummies_1d p vs) = (\<lambda>v. (dummy_name p v, map (\<lambda>x. if x = v then 1 else 0) vs)) ` set vs"
  by (simp add: get_dummies_1d_def)

lemma columns_get_dummies_1d:
  "map fst (get_dummies_1d p vs) = map (dummy_name p) (sort (remdups vs))"
  by (simp add: get_dummies_1d_def comp_def)

lemma distinct_get_dummies_1d: "distinct (map fst (get_dummies_1d p vs))"
  unfolding columns_get_dummies_1d
  by (simp add: distinct_map inj_on_def dummy_name_inject)

text \<open>A one-hot label names its categorical column and its value.\<close>

lemma dummy_name_CAT_COLS:
  assumes "(p, f) \<in> set CAT_COLS" and "(q, g) \<in> set CAT_COLS"
    and "dummy_name p v = dummy_name q w"
  shows "p = q \<and> f = g \<and> v = w"
  using assms by (auto simp: CAT_COLS_def dummy_name_def)

lemma dummy_name_not_FEATURES:
  assumes "(p, f) \<in> set CAT_COLS"
  shows "dummy_name p v \<notin> fst ` set FEATURES"
  using assms by (auto simp: CAT_COLS_def FEATURES_def dummy_name_def)

lemma distinct_columns_prep_xy: "distinct (columns (fst (prep_xy df)))"
proof -
  have a: "distinct (map fst FEATURES)" by (simp add: FEATURES_def)
  have f: "map fst (map (\<lambda>(c, f). (c, map (\<lambda>r. fillna 0 (f r)) df)) FEATURES) = map fst FEATURES"
    by (simp add: FEATURES_def)
  have b: "distinct (map fst (concat (map (\<lambda>(c, f). get_dummies_1d c (map f df)) CAT_COLS)))"
    by (auto simp: CAT_COLS_def distinct_get_dummies_1d set_get_dummies_1d dummy_name_def)
  have c: "set (map fst FEATURES) \<inter>
           set (map fst (concat (map (\<lambda>(c, f). get_dummies_1d c (map f df)) CAT_COLS))) = {}"
    by (auto simp: CAT_COLS_def FEATURES_def set_get_dummies_1d dummy_name_def)
  show ?thesis
    unfolding columns_def cols_prep_xy map_append distinct_append f using a b c by blast
qed

lemma map_of_prep_xy_dummy:
  assumes pf: "(p, f) \<in> set CAT_COLS"
  shows "map_of (cols (fst (prep_xy df))) (dummy_name p v) =
           (if v \<in> f ` set df then Some (map (\<lambda>r. if f r = v then 1 else 0) df) else None)"
proof (cases "map_of (cols (fst (prep_xy df))) (dummy_name p v)")
  case None
  have "v \<notin> f ` set df"
  proof
    assume "v \<in> f ` set df"
    then have "(dummy_name p v, map (\<lambda>x. if x = v then 1 else 0) (map f df))
                 \<in> set (get_dummies_1d p (map f df))"
      by (auto simp: set_get_dummies_1d)
    with pf have "dummy_name p v \<in> fst ` set (cols (fst (prep_xy df)))"
      unfolding cols_prep_xy by force
    with None show False by (simp add: map_of_eq_None_iff)
  qed
  with None show ?thesis by simp
next
  case (Some col)
  then have "(dummy_name p v, col) \<in> set (cols (fst (prep_xy df)))"
    by (rule map_of_SomeD)
  then consider
    (num) "dummy_name p v \<in> fst ` set FEATURES"
    | (cat) q g where "(q, g) \<in> set CAT_COLS"
        "(dummy_name p v, col) \<in> set (get_dummies_1d q (map g df))"
    unfolding cols_prep_xy by (fastforce simp: image_iff)
  then show ?thesis
  proof cases
    case num
    with dummy_name_not_FEATURES [OF pf] show ?thesis by blast
  next
    case cat
    from cat(2) obtain w where w: "w \<in> set (map g df)" "dummy_name p v = dummy_name q w"
      "col = map (\<lambda>x. if x = w then 1 else 0) (map g df)"
      by (auto simp: set_get_dummies_1d)
    from dummy_name_CAT_COLS [OF pf cat(1) w(2)] have e: "p = q" "f = g" "v = w" by simp_all
    with w Some show ?thesis by (auto simp: comp_def)
  qed
qed

lemma dummy_in_feature_columns:
  assumes "(p, f) \<in> set CAT_COLS"
  shows "dummy_name p v \<in> set (feature_columns train_df)
           \<longleftrightarrow> v \<in> f ` {r \<in> set train_df. notna (val r)}"
proof -
  let ?df = "filter (\<lambda>r. notna (val r)) train_df"
  have "dummy_name p v \<in> set (feature_columns train_df)
          \<longleftrightarrow> map_of (cols (fst (prep_xy ?df))) (dummy_name p v) \<noteq> None"
    by (simp add: feature_columns_def columns_def map_of_eq_None_iff)
  also have "\<dots> \<longleftrightarrow> v \<in> f ` set ?df"
    by (simp add: map_of_prep_xy_dummy [OF assms])
  finally show ?thesis by simp
qed

lemma nrows_prep_xy: "nrows (fst (prep_xy df)) = length df"
  by (simp add: prep_xy_def Let_def)

lemma unseen_category_zero:
  assumes pf: "(p, f) \<in> set CAT_COLS" and i: "i < length df"
    and unseen: "f (df ! i) \<notin> f ` {r \<in> set train_df. notna (val r)}"
    and c: "dummy_name p v \<in> set (feature_columns train_df)"
  shows "entry (reindex (feature_columns train_df) 0 (fst (prep_xy df))) (dummy_name p v) i = Some 0"
proof -
  from c have v: "v \<in> f ` {r \<in> set train_df. notna (val r)}"
    by (simp add: dummy_in_feature_columns [OF pf])
  with unseen have ne: "f (df ! i) \<noteq> v" by auto
  show ?thesis
    using i ne by (simp add: entry_reindex [OF c] nrows_prep_xy map_of_prep_xy_dummy [OF pf])
qed

text \<open>The example matrices, evaluated.\<close>

lemma feature_columns_example:
  "feature_columns [example_row] =
     [''year'', ''value_roll3'', ''value_z_global'', ''value_z_year'', ''value_pct_change'',
      ''ci_width'', ''quality_score'', ''indicator_code_WHOSIS_000001'', ''continent_Europe'',
      ''country_iso3_FRA'', ''sex_SEX_BTSX'']"
  by (simp add: feature_columns_def columns_def cols_prep_xy FEATURES_def CAT_COLS_def
      get_dummies_1d_def dummy_name_def notna_def example_row_def)

lemma prep_xy_example_unseen:
  "fst (prep_xy [example_unseen]) =
     \<lparr>nrows = 1,
      cols = [(''year'', [2019]), (''value_roll3'', [82]), (''value_z_global'', [0]),
              (''value_z_year'', [0]), (''value_pct_change'', [0]), (''ci_width'', [2]),
              (''quality_score'', [1 / 2]), (''indicator_code_WHOSIS_000001'', [1]),
              (''continent_Europe'', [1]), (''country_iso3_DEU'', [1]), (''sex_SEX_BTSX'', [1])]\<rparr>"
  by (simp add: prep_xy_def Let_def FEATURES_def CAT_COLS_def fillna_def year_num_def
      get_dummies_1d_def dummy_name_def example_row_def example_unseen_def)

lemma reindex_example_unseen:
  "reindex (feature_columns [example_row]) 0 (fst (prep_xy [example_unseen])) =
     \<lparr>nrows = 1,
      cols = [(''year'', [2019]), (''value_roll3'', [82]), (''value_z_global'', [0]),
              (''value_z_year'', [0]), (''value_pct_change'', [0]), (''ci_width'', [2]),
              (''quality_score'', [1 / 2]), (''indicator_code_WHOSIS_000001'', [1]),
              (''continent_Europe'', [1]), (''country_iso3_FRA'', [0]), (''sex_SEX_BTSX'', [1])]\<rparr>"
  unfolding feature_columns_example prep_xy_example_unseen
  by (simp add: reindex_def)

text \<open>
  C1. Reindexing a feature matrix \<open>X\<close> to the column list \<open>model_columns\<close> with fill
  value 0 gives a matrix whose labels are \<open>model_columns\<close> in that order and whose row
  index is that of \<open>X\<close>: a label outside \<open>model_columns\<close> has no column left, a label of
  \<open>model_columns\<close> keeps the column \<open>X\<close> had for it and otherwise gets a column of zeros.
  Reindexing a matrix to its own (distinct) labels changes nothing, which holds for every
  \<open>_prep_xy\<close> matrix, and reindexing twice is reindexing once. The Evaluator and the
  Forecaster both align their \<open>_prep_xy\<close> matrix with this operation. Hence, with the
  trainer's column list, a row whose value in a categorical column was not seen among
  the training rows has 0 in every one-hot column of that categorical column.
\<close>

theorem schema_alignment:
  "columns (reindex model_columns 0 X) = model_columns \<and>
   nrows (reindex model_columns 0 X) = nrows X \<and>
   (\<forall>c. c \<notin> set model_columns \<longrightarrow> map_of (cols (reindex model_columns 0 X)) c = None) \<and>
   (\<forall>c\<in>set model_columns.
      map_of (cols (reindex model_columns 0 X)) c =
        Some (case map_of (cols X) c of Some col \<Rightarrow> col | None \<Rightarrow> replicate (nrows X) 0)) \<and>
   (distinct (columns X) \<and> columns X = model_columns \<longrightarrow> reindex model_columns 0 X = X) \<and>
   reindex (columns (fst (prep_xy df))) 0 (fst (prep_xy df)) = fst (prep_xy df) \<and>
   reindex model_columns 0 (reindex model_columns 0 X) = reindex model_columns 0 X \<and>
   evaluate_model_X test_df model_columns
     = reindex model_columns 0 (fst (prep_xy (filter (\<lambda>r. notna (val r)) test_df))) \<and>
   predict_future_X future_df model_columns
     = reindex model_columns 0 (fst (prep_xy (expand_years future_df))) \<and>
   (\<forall>p f i v. (p, f) \<in> set CAT_COLS \<longrightarrow> i < length df \<longrightarrow>
      f (df ! i) \<notin> f ` set (filter (\<lambda>r. notna (val r)) train_df) \<longrightarrow>
      dummy_name p v \<in> set (feature_columns train_df) \<longrightarrow>
      entry (reindex (feature_columns train_df) 0 (fst (prep_xy df))) (dummy_name p v) i = Some 0)"
proof (intro conjI)
  show "columns (reindex model_columns 0 X) = model_columns" by (rule columns_reindex)
  show "nrows (reindex model_columns 0 X) = nrows X" by (rule nrows_reindex)
  show "\<forall>c. c \<notin> set model_columns \<longrightarrow> map_of (cols (reindex model_columns 0 X)) c = None"
    by (simp add: map_of_reindex)
  show "\<forall>c\<in>set model_columns.
      map_of (cols (reindex model_columns 0 X)) c =
        Some (case map_of (cols X) c of Some col \<Rightarrow> col | None \<Rightarrow> replicate (nrows X) 0)"
    by (simp add: map_of_reindex)
  show "distinct (columns X) \<and> columns X = model_columns \<longrightarrow> reindex model_columns 0 X = X"
    using reindex_own_columns [of X 0] by auto
  show "reindex (columns (fst (prep_xy df))) 0 (fst (prep_xy df)) = fst (prep_xy df)"
    by (rule reindex_own_columns [OF distinct_columns_prep_xy])
  show "reindex model_columns 0 (reindex model_columns 0 X) = reindex model_columns 0 X"
    by (rule reindex_reindex)
  show "evaluate_model_X test_df model_columns
     = reindex model_columns 0 (fst (prep_xy (filter (\<lambda>r. notna (val r)) test_df)))"
    by (simp add: evaluate_model_X_def)
  show "predict_future_X future_df model_columns
     = reindex model_columns 0 (fst (prep_xy (expand_years future_df)))"
    by (simp add: predict_future_X_def)
  show "\<forall>p f i v. (p, f) \<in> set CAT_COLS \<longrightarrow> i < length df \<longrightarrow>
      f (df ! i) \<notin> f ` set (filter (\<lambda>r. notna (val r)) train_df) \<longrightarrow>
      dummy_name p v \<in> set (feature_columns train_df) \<longrightarrow>
      entry (reindex (feature_columns train_df) 0 (fst (prep_xy df))) (dummy_name p v) i = Some 0"
    using unseen_category_zero [of _ _ _ df train_df] by simp
qed


theorem schema_alignment_witness:
  "entry (reindex (feature_columns [example_row]) 0 (fst (prep_xy [example_unseen])))
      (dummy_name ''country_iso3'' ''FRA'') 0 = Some 0 \<and>
   columns (reindex (feature_columns [example_row]) 0 (fst (prep_xy [example_unseen])))
      = feature_columns [example_row] \<and>
   reindex (columns (fst (prep_xy [example_unseen]))) 0 (fst (prep_xy [example_unseen]))
      = fst (prep_xy [example_unseen])"
proof -
  note A = schema_alignment [of "feature_columns [example_row]" "fst (prep_xy [example_unseen])"
      "[example_unseen]" "[]" "[]" "[example_row]"]
  have cat: "(''country_iso3'', country_iso3) \<in> set CAT_COLS" by (simp add: CAT_COLS_def)
  have i: "0 < length [example_unseen]" by simp
  have unseen: "country_iso3 ([example_unseen] ! 0)
                  \<notin> country_iso3 ` set (filter (\<lambda>r. notna (val r)) [example_row])"
    by (simp add: example_unseen_def example_row_def notna_def)
  have col: "dummy_name ''country_iso3'' ''FRA'' \<in> set (feature_columns [example_row])"
    by (simp add: feature_columns_example dummy_name_def)
  have last: "\<forall>p f i v. (p, f) \<in> set CAT_COLS \<longrightarrow> i < length [example_unseen] \<longrightarrow>
      f ([example_unseen] ! i) \<notin> f ` set (filter (\<lambda>r. notna (val r)) [example_row]) \<longrightarrow>
      dummy_name p v \<in> set (feature_columns [example_row]) \<longrightarrow>
      entry (reindex (feature_columns [example_row]) 0 (fst (prep_xy [example_unseen])))
        (dummy_name p v) i = Some 0"
    using A by (elim conjE)
  have 1: "entry (reindex (feature_columns [example_row]) 0 (fst (prep_xy [example_unseen])))
      (dummy_name ''country_iso3'' ''FRA'') 0 = Some 0"
    by (rule last [rule_format, OF cat i unseen col])
  have 2: "columns (reindex (feature_columns [example_row]) 0 (fst (prep_xy [example_unseen])))
      = feature_columns [example_row]"
    using A by (elim conjE)
  have 3: "reindex (columns (fst (prep_xy [example_unseen]))) 0 (fst (prep_xy [example_unseen]))
      = fst (prep_xy [example_unseen])"
    using A by (elim conjE)
  from 1 2 3 show ?thesis by (intro conjI)
qed

section \<open>Properties of the Forecaster\<close>









lemma pred_with_prediction: "predicted_value (with_prediction r p s) = p"
  by (simp add: with_prediction_def feature_row.extend_def)











text \<open>The forecast of the example forest for the example row, evaluated.\<close>

lemma np_std_examples: "np_std [0, 0] = 0 \<and> np_std [0, 2] = 1 \<and> np_std [0, 4] = 2"
  by (simp add: np_std_def np_mean_def power2_eq_square)

lemma expand_years_example:
  "expand_years [example_row] = [example_row\<lparr>year := Some (IntYear 2023)\<rparr>, example_row\<lparr>year := Some (IntYear 2024)\<rparr>, example_row\<lparr>year := Some (IntYear 2025)\<rparr>]"
  by (simp add: expand_years_def)

lemma map_of_prep_year:
  "map_of (cols (fst (prep_xy df))) ''year''
     = Some (map (\<lambda>r. fillna 0 (map_option year_num (year r))) df)"
  by (simp add: prep_xy_def FEATURES_def Let_def)

lemma predict_future_X_example:
  "to_numpy (predict_future_X [example_row] [''year'']) = [[2023], [2024], [2025]]"
  by (simp add: predict_future_X_def reindex_def map_of_prep_year nrows_prep_xy expand_years_example
      to_numpy_def fillna_def year_num_def eval_nat_numeral del: upt_Suc) (simp add: upt_rec)

lemma predict_future_example:
  "predict_future example_forest [example_row] [''year'']
         = Inr [with_prediction (example_row\<lparr>year := Some (IntYear 2023)\<rparr>) 0 0,
                with_prediction (example_row\<lparr>year := Some (IntYear 2024)\<rparr>) 1 1,
                with_prediction (example_row\<lparr>year := Some (IntYear 2025)\<rparr>) 2 2]"
    by (simp add: predict_future_def Let_def predict_future_X_example expand_years_example example_forest_def np_std_examples)

end
